theory Spec2Isabelle
  imports Complex_Main "HOL-Library.AList"
begin

section \<open>PyFstat: signal-to-noise ratios, detector timestamps, covering bands\<close>

text \<open>
  A shallow embedding of \<^verbatim>\<open>pyfstat/snr.py\<close> and \<^verbatim>\<open>pyfstat/utils/runlalsuite.py\<close>.
  Every \<^verbatim>\<open>raise\<close> of the Python is an \<open>Inl\<close> of the result. The functions of the
  LALSuite libraries (\<^verbatim>\<open>lal\<close>, \<^verbatim>\<open>lalpulsar\<close>) that the Python calls are parameters
  of the model, since the libraries are not part of the package.
\<close>

subsection \<open>Python exceptions and floating-point values\<close>

datatype error =
    ValueError
  | AttributeError
  | TypeError
  | IndexError
  | ZeroDivisionError
  | OverflowError
  | RuntimeError

text \<open>
  An argument of type \<^verbatim>\<open>float\<close> is a \<open>real\<close>: a finite value. A value that an
  operation or a library gives back is an \<open>fl\<close>, which adds the special values of
  IEEE 754 that the Python tests for. The sum, the product and the square root of this
  subsection (used by \<^verbatim>\<open>compute_twoF\<close>, where no branch depends on them) give the exact
  value of a finite result; the operations of the next subsection round it.
\<close>

datatype fl = NaN | NInf | Fin real | PInf

fun isnan :: "fl \<Rightarrow> bool" where
  "isnan NaN = True"
| "isnan _ = False"

fun isfinite :: "fl \<Rightarrow> bool" where
  "isfinite (Fin _) = True"
| "isfinite _ = False"

text \<open>Comparisons: every comparison with NaN is false.\<close>

fun fl_le :: "fl \<Rightarrow> fl \<Rightarrow> bool" where
  "fl_le NaN _ = False"
| "fl_le _ NaN = False"
| "fl_le NInf _ = True"
| "fl_le _ PInf = True"
| "fl_le (Fin x) (Fin y) = (x \<le> y)"
| "fl_le (Fin x) NInf = False"
| "fl_le PInf (Fin y) = False"
| "fl_le PInf NInf = False"

fun fl_lt :: "fl \<Rightarrow> fl \<Rightarrow> bool" where
  "fl_lt NaN _ = False"
| "fl_lt _ NaN = False"
| "fl_lt NInf NInf = False"
| "fl_lt NInf _ = True"
| "fl_lt PInf _ = False"
| "fl_lt (Fin x) (Fin y) = (x < y)"
| "fl_lt (Fin x) NInf = False"
| "fl_lt (Fin x) PInf = True"




subsection \<open>Arithmetic in binary64\<close>

text \<open>
  A finite \<^verbatim>\<open>float\<close> is \<open>m * 2\<^sup>e\<close> with \<open>\<bar>m\<bar> < 2\<^sup>5\<^sup>3\<close> and \<open>-1074 \<le> e \<le> 971\<close>. The result of
  an operation is the exact result rounded to the nearest such number, ties to the even
  mantissa: \<open>expo64\<close> is the binary exponent of \<open>x\<close> (not below that of the subnormal
  numbers), \<open>ulp64\<close> the spacing of the floats around \<open>x\<close>, \<open>rnd64\<close> the rounded value,
  and \<open>round64\<close> gives infinity when the rounded value is beyond the largest float. The
  two zeros are not told apart.
\<close>

definition pow2 :: "int \<Rightarrow> real" where
  \<comment> \<open>\<open>2\<^sup>e\<close> for an integer \<open>e\<close>\<close>
  "pow2 e = (if 0 \<le> e then 2 ^ nat e else 1 / 2 ^ nat (- e))"

definition float64 :: "int \<Rightarrow> int \<Rightarrow> real" where
  "float64 m e = of_int m * pow2 e"

definition expo64 :: "real \<Rightarrow> int" where
  "expo64 x = (if x = 0 then - 1022 else max (- 1022) \<lfloor>log 2 \<bar>x\<bar>\<rfloor>)"

definition ulp64 :: "real \<Rightarrow> real" where
  "ulp64 x = pow2 (expo64 x - 52)"

definition rne :: "real \<Rightarrow> int" where
  \<comment> \<open>the nearest integer, the even one of two equally near\<close>
  "rne y =
     (let n = \<lfloor>y\<rfloor>; r = y - of_int n
      in if r < 1 / 2 then n else if 1 / 2 < r then n + 1 else if even n then n else n + 1)"

definition rnd64 :: "real \<Rightarrow> real" where
  "rnd64 x = of_int (rne (x / ulp64 x)) * ulp64 x"

definition max64 :: real where
  \<comment> \<open>the largest finite float\<close>
  "max64 = (pow2 53 - 1) * pow2 971"

definition round64 :: "real \<Rightarrow> fl" where
  "round64 x =
     (let y = rnd64 x in if max64 < y then PInf else if y < - max64 then NInf else Fin y)"

fun fl_sign :: "fl \<Rightarrow> int" where
  "fl_sign NaN = 0"
| "fl_sign NInf = - 1"
| "fl_sign (Fin x) = sgn \<lfloor>sgn x\<rfloor>"
| "fl_sign PInf = 1"

definition f64_mul :: "fl \<Rightarrow> fl \<Rightarrow> fl" where
  \<comment> \<open>\<^verbatim>\<open>a * b\<close> on floats: it never raises\<close>
  "f64_mul a b =
     (case (a, b) of
        (Fin x, Fin y) \<Rightarrow> round64 (x * y)
      | _ \<Rightarrow>
          (if isnan a \<or> isnan b \<or> fl_sign a * fl_sign b = 0 then NaN
           else if 0 < fl_sign a * fl_sign b then PInf else NInf))"

definition py_pow2 :: "real \<Rightarrow> error + real" where
  \<comment> \<open>\<^verbatim>\<open>x**2\<close> on a finite float: Python raises when the square is beyond the
      largest float, and gives \<open>0.0\<close> when it is too small\<close>
  "py_pow2 x = (let y = rnd64 (x\<^sup>2) in if max64 < \<bar>y\<bar> then Inl OverflowError else Inr y)"

definition py_truediv :: "real \<Rightarrow> real \<Rightarrow> error + fl" where
  \<comment> \<open>\<^verbatim>\<open>x / y\<close> on finite floats\<close>
  "py_truediv x y = (if y = 0 then Inl ZeroDivisionError else Inr (round64 (x / y)))"

definition np_floor :: "fl \<Rightarrow> fl" where
  "np_floor v = (case v of Fin x \<Rightarrow> Fin (of_int \<lfloor>x\<rfloor>) | _ \<Rightarrow> v)"

definition py_int :: "fl \<Rightarrow> error + int" where
  \<comment> \<open>\<^verbatim>\<open>int(v)\<close>: towards zero; refuses NaN and the infinities\<close>
  "py_int v =
     (case v of
        NaN \<Rightarrow> Inl ValueError
      | Fin x \<Rightarrow> Inr (if 0 \<le> x then \<lfloor>x\<rfloor> else \<lceil>x\<rceil>)
      | _ \<Rightarrow> Inl OverflowError)"

subsection \<open>The data of \<^verbatim>\<open>lal\<close> and \<^verbatim>\<open>lalpulsar\<close> that the package reads and writes\<close>

record LIGOTimeGPS =
  gpsSeconds :: int
  gpsNanoSeconds :: int

definition in_INT4 :: "int \<Rightarrow> bool" where
  "in_INT4 i \<longleftrightarrow> - (2 ^ 31) \<le> i \<and> i < 2 ^ 31"

definition in_INT8 :: "int \<Rightarrow> bool" where
  "in_INT8 i \<longleftrightarrow> - (2 ^ 63) \<le> i \<and> i < 2 ^ 63"

definition c_div :: "int \<Rightarrow> int \<Rightarrow> int" where
  \<comment> \<open>the division of C, towards zero\<close>
  "c_div a b = sgn a * sgn b * (\<bar>a\<bar> div \<bar>b\<bar>)"

text \<open>
  \<^verbatim>\<open>lal.LIGOTimeGPS(gpssec, gpsnan)\<close> takes an \<^verbatim>\<open>INT4\<close> and an \<^verbatim>\<open>INT8\<close> (a Python
  integer outside the range is refused with \<^verbatim>\<open>OverflowError\<close>) and stores the instant
  \<open>10\<^sup>9 * gpssec + gpsnan\<close> nanoseconds as seconds and nanoseconds of the same sign
  (\<^verbatim>\<open>XLALGPSSet\<close>, \<^verbatim>\<open>XLALINT8NSToGPS\<close>: quotient and remainder of C, an error when
  the seconds leave \<^verbatim>\<open>INT4\<close>).
\<close>

definition new_LIGOTimeGPS :: "int \<Rightarrow> int \<Rightarrow> error + LIGOTimeGPS" where
  "new_LIGOTimeGPS gpssec gpsnan =
     (if \<not> in_INT4 gpssec \<or> \<not> in_INT8 gpsnan then Inl OverflowError
      else
        (let ns = 1000000000 * gpssec + gpsnan;
             sec = c_div ns 1000000000
         in if \<not> in_INT4 sec then Inl RuntimeError
            else Inr \<lparr>gpsSeconds = sec, gpsNanoSeconds = ns - 1000000000 * sec\<rparr>))"

record LIGOTimeGPSVector =
  tsv_data :: "LIGOTimeGPS list"
  tsv_deltaT :: real

record DetectorStateSeries =
  dss_deltaT :: real

record MultiDetectorStateSeries =
  mdss_data :: "DetectorStateSeries list"

datatype CoordinateSystem =
    COORDINATESYSTEM_HORIZON
  | COORDINATESYSTEM_GEOGRAPHIC
  | COORDINATESYSTEM_EQUATORIAL
  | COORDINATESYSTEM_ECLIPTIC
  | COORDINATESYSTEM_GALACTIC

record SkyPosition =
  longitude :: real
  latitude :: real
  system :: CoordinateSystem

record AntennaPatternMatrix =
  Ad :: real
  Bd :: real
  Cd :: real
  Ed :: real
  Dd :: real
  apm_Sinv_Tsft :: fl

record MultiAMCoeffs =
  Mmunu :: AntennaPatternMatrix

record PulsarAmplitudeParams =
  pap_psi :: real
  pap_phi0 :: real
  pap_aPlus :: fl
  pap_aCross :: fl

text \<open>
  The three library functions used by \<^verbatim>\<open>SignalToNoiseRatio\<close>. \<open>'nw\<close> is the type of
  \<^verbatim>\<open>lalpulsar.MultiNoiseWeights\<close>. A library error reaches Python as an exception, so
  the two functions that can fail return a sum.
\<close>

record 'nw lalsuite =
  NormalizeSkyPosition :: "real \<Rightarrow> real \<Rightarrow> real \<times> real"
  ComputeMultiAMCoeffs ::
    "MultiDetectorStateSeries \<Rightarrow> 'nw option \<Rightarrow> SkyPosition \<Rightarrow> error + MultiAMCoeffs"
  ComputeOptimalSNR2FromMmunu ::
    "PulsarAmplitudeParams \<Rightarrow> AntennaPatternMatrix \<Rightarrow> error + fl"

subsection \<open>\<^verbatim>\<open>class SignalToNoiseRatio\<close>\<close>

text \<open>The three attrs fields; \<open>None\<close> is Python's \<^verbatim>\<open>None\<close>.\<close>

record 'nw SignalToNoiseRatio =
  detector_states :: MultiDetectorStateSeries
  noise_weights :: "'nw option"
  assumeSqrtSX :: "real option"

text \<open>
  The object once \<^verbatim>\<open>__attrs_post_init__\<close> has run: it has \<^verbatim>\<open>self.Tsft\<close>, and it
  has \<^verbatim>\<open>self.Sinv_Tsft\<close> only on the branch that assigns it (\<open>None\<close>: no such
  attribute).
\<close>

record 'nw SNR_object = "'nw SignalToNoiseRatio" +
  self_Tsft :: real
  self_Sinv_Tsft :: "fl option"

text \<open>
  With no detector, \<^verbatim>\<open>detector_states.data\<close> is \<^verbatim>\<open>None\<close>, and \<^verbatim>\<open>data[0]\<close> a
  \<^verbatim>\<open>TypeError\<close>.
\<close>

definition attrs_post_init :: "'nw SignalToNoiseRatio \<Rightarrow> error + 'nw SNR_object" where
  "attrs_post_init s =
     (case mdss_data (detector_states s) of
        [] \<Rightarrow> Inl TypeError
      | d # _ \<Rightarrow>
          (let tsft = dss_deltaT d in
           if noise_weights s = None then
             (if assumeSqrtSX s \<noteq> None then
                (case py_pow2 (the (assumeSqrtSX s)) of
                   Inl e \<Rightarrow> Inl e
                 | Inr sq \<Rightarrow>
                     (case py_truediv tsft sq of
                        Inl e \<Rightarrow> Inl e
                      | Inr q \<Rightarrow>
                          Inr (SignalToNoiseRatio.extend s
                                 \<lparr>self_Tsft = tsft, self_Sinv_Tsft = Some q\<rparr>)))
              else Inl ValueError)
           else if assumeSqrtSX s \<noteq> None then Inl ValueError
           else Inr (SignalToNoiseRatio.extend s \<lparr>self_Tsft = tsft, self_Sinv_Tsft = None\<rparr>)))"

definition convert_amplitude_parameters ::
  "real option \<Rightarrow> real option \<Rightarrow> real option \<Rightarrow> real option
     \<Rightarrow> error + (fl option \<times> fl option)" where
  "convert_amplitude_parameters h0 cosi aPlus aCross =
     (let h0_cosi = (h0 \<noteq> None \<and> cosi \<noteq> None);
          aPlusCross = (aPlus \<noteq> None \<and> aCross \<noteq> None)
      in if h0_cosi = aPlusCross then Inl ValueError
         else if h0_cosi then
           (let half_h0 = round64 (0.5 * the h0)
            in case py_pow2 (the cosi) of
                 Inl e \<Rightarrow> Inl e
               | Inr sq \<Rightarrow>
                   Inr (Some (f64_mul half_h0 (round64 (1 + sq))),
                        Some (round64 (the h0 * the cosi))))
         else Inr (map_option Fin aPlus, map_option Fin aCross))"

definition compute_Mmunu ::
  "'nw lalsuite \<Rightarrow> 'nw SNR_object \<Rightarrow> real \<Rightarrow> real \<Rightarrow> error + AntennaPatternMatrix" where
  "compute_Mmunu L self Alpha Delta =
     (let sky = \<lparr>longitude = Alpha, latitude = Delta, system = COORDINATESYSTEM_EQUATORIAL\<rparr>;
          _ = NormalizeSkyPosition L (longitude sky) (latitude sky)
      in case ComputeMultiAMCoeffs L (detector_states self) (noise_weights self) sky of
           Inl e \<Rightarrow> Inl e
         | Inr coeffs \<Rightarrow>
             (if noise_weights self = None then
                (case self_Sinv_Tsft self of
                   None \<Rightarrow> Inl AttributeError
                 | Some s \<Rightarrow> Inr ((Mmunu coeffs)\<lparr>apm_Sinv_Tsft := s\<rparr>))
              else Inr (Mmunu coeffs)))"

text \<open>
  \<^verbatim>\<open>Aphys.aPlus = aPlus\<close> assigns to a \<^verbatim>\<open>REAL8\<close> field, which refuses \<^verbatim>\<open>None\<close>.
\<close>

definition compute_snr2 ::
  "'nw lalsuite \<Rightarrow> 'nw SNR_object \<Rightarrow> real \<Rightarrow> real \<Rightarrow> real \<Rightarrow> real
     \<Rightarrow> real option \<Rightarrow> real option \<Rightarrow> real option \<Rightarrow> real option \<Rightarrow> error + fl" where
  "compute_snr2 L self Alpha Delta psi phi0 h0 cosi aPlus aCross =
     (case convert_amplitude_parameters h0 cosi aPlus aCross of
        Inl e \<Rightarrow> Inl e
      | Inr (aPlus', aCross') \<Rightarrow>
          (case (aPlus', aCross') of
             (Some ap, Some ac) \<Rightarrow>
               (let Aphys = \<lparr>pap_psi = psi, pap_phi0 = phi0, pap_aPlus = ap, pap_aCross = ac\<rparr>
                in case compute_Mmunu L self Alpha Delta of
                     Inl e \<Rightarrow> Inl e
                   | Inr M \<Rightarrow> ComputeOptimalSNR2FromMmunu L Aphys M)
           | _ \<Rightarrow> Inl TypeError))"


subsection \<open>\<^verbatim>\<open>class DetectorStates\<close>\<close>

text \<open>
  A numpy array: its shape, whether its \<^verbatim>\<open>dtype\<close> is \<^verbatim>\<open>object\<close>, and its numbers in
  row-major order. An array-like argument is represented by the array that
  \<^verbatim>\<open>np.array\<close> makes of it.
\<close>

record ndarray =
  nd_shape :: "nat list"
  nd_is_object :: bool
  nd_values :: "real list"

definition ndim :: "ndarray \<Rightarrow> nat" where
  "ndim a = length (nd_shape a)"

definition nd_iter :: "ndarray \<Rightarrow> error + ndarray list" where
  \<comment> \<open>iterating an array gives its sub-arrays along the first axis; a 0-d array refuses\<close>
  "nd_iter a =
     (case nd_shape a of
        [] \<Rightarrow> Inl TypeError
      | n # rest \<Rightarrow>
          (let m = prod_list rest
           in Inr (map (\<lambda>i. \<lparr>nd_shape = rest, nd_is_object = nd_is_object a,
                                nd_values = take m (drop (i * m) (nd_values a))\<rparr>) [0..<n])))"

datatype timestamps_arg =
    TsDict "(string \<times> ndarray) list"
  | TsArray ndarray

datatype detectors_arg =
    DetString string
  | DetList "string list"

text \<open>
  The zero-argument methods of \<^verbatim>\<open>dict\<close> that give its contents. Any other name asked
  of a \<^verbatim>\<open>dict\<close> in this module is not an attribute of it.
\<close>

datatype ('k, 'v) dict_view = DictKeys "'k list" | DictValues "'v list" | DictItems "('k \<times> 'v) list"

definition dict_call :: "string \<Rightarrow> ('k \<times> 'v) list \<Rightarrow> error + ('k, 'v) dict_view" where
  "dict_call name d =
     (if name = ''keys'' then Inr (DictKeys (map fst d))
      else if name = ''values'' then Inr (DictValues (map snd d))
      else if name = ''items'' then Inr (DictItems d)
      else Inl AttributeError)"

fun split_on :: "char \<Rightarrow> string \<Rightarrow> string list" where
  \<comment> \<open>\<^verbatim>\<open>str.split(sep)\<close> for a one-character separator\<close>
  "split_on c [] = [[]]"
| "split_on c (x # xs) =
     (if x = c then [] # split_on c xs
      else (case split_on c xs of
              [] \<Rightarrow> [[x]]
            | w # ws \<Rightarrow> (x # w) # ws))"

definition remove_spaces :: "string \<Rightarrow> string" where
  \<comment> \<open>\<^verbatim>\<open>s.replace(" ", "")\<close>\<close>
  "remove_spaces s = filter (\<lambda>c. c \<noteq> CHR '' '') s"

record MultiLALDetector =
  mld_length :: nat
  mld_sites :: "string list"

text \<open>
  The library functions used by \<^verbatim>\<open>DetectorStates\<close>; \<open>'eph\<close> is the type of the
  ephemeris data. A \<^verbatim>\<open>MultiLIGOTimeGPSVector\<close> is the list of its per-detector
  entries, \<open>None\<close> for an entry not assigned since its creation.
\<close>

record 'eph lalstates =
  ParseMultiLALDetector :: "string list option \<Rightarrow> error + MultiLALDetector"
  GetMultiDetectorStates ::
    "LIGOTimeGPSVector option list \<Rightarrow> MultiLALDetector \<Rightarrow> 'eph \<Rightarrow> real
       \<Rightarrow> error + MultiDetectorStateSeries"

definition py_or_zero :: "real option \<Rightarrow> real" where
  \<comment> \<open>\<^verbatim>\<open>Tsft or 0\<close>\<close>
  "py_or_zero Tsft = (case Tsft of None \<Rightarrow> 0 | Some x \<Rightarrow> (if x = 0 then 0 else x))"

fun gps_entries :: "fl list \<Rightarrow> fl list \<Rightarrow> nat list \<Rightarrow> error + LIGOTimeGPS list" where
  \<comment> \<open>the loop \<^verbatim>\<open>for ind in range(time_gps_vector.length)\<close>\<close>
  "gps_entries seconds_array nanoseconds_array [] = Inr []"
| "gps_entries seconds_array nanoseconds_array (ind # rest) =
     (case py_int (seconds_array ! ind) of
        Inl e \<Rightarrow> Inl e
      | Inr sec \<Rightarrow>
          (case py_int (nanoseconds_array ! ind) of
             Inl e \<Rightarrow> Inl e
           | Inr nan \<Rightarrow>
               (case new_LIGOTimeGPS sec nan of
                  Inl e \<Rightarrow> Inl e
                | Inr gps \<Rightarrow>
                    (case gps_entries seconds_array nanoseconds_array rest of
                       Inl e \<Rightarrow> Inl e
                     | Inr others \<Rightarrow> Inr (gps # others)))))"

definition numpy_array_to_LIGOTimeGPSVector ::
  "ndarray \<Rightarrow> real option \<Rightarrow> error + LIGOTimeGPSVector" where
  "numpy_array_to_LIGOTimeGPSVector numpy_array Tsft =
     (if ndim numpy_array \<noteq> 1 then Inl ValueError
      else
        (let seconds_array = map (\<lambda>t. np_floor (Fin t)) (nd_values numpy_array);
             nanoseconds_array =
               map (\<lambda>t. np_floor
                          (f64_mul (Fin 1000000000) (round64 (t - of_int \<lfloor>t\<rfloor>))))
                 (nd_values numpy_array);
             n = hd (nd_shape numpy_array)
         in case gps_entries seconds_array nanoseconds_array [0..<n] of
              Inl e \<Rightarrow> Inl e
            | Inr entries \<Rightarrow>
                Inr \<lparr>tsv_data = entries,
                     tsv_deltaT = (if n = 0 then 0 else py_or_zero Tsft)\<rparr>))"

fun fill_multi_timestamps ::
  "LIGOTimeGPSVector option list \<Rightarrow> nat \<Rightarrow> ndarray list \<Rightarrow> real option
     \<Rightarrow> error + LIGOTimeGPSVector option list" where
  \<comment> \<open>the loop \<^verbatim>\<open>for ind, ts in enumerate(timestamps)\<close>\<close>
  "fill_multi_timestamps mt ind [] Tsft = Inr mt"
| "fill_multi_timestamps mt ind (ts # rest) Tsft =
     (case numpy_array_to_LIGOTimeGPSVector ts Tsft of
        Inl e \<Rightarrow> Inl e
      | Inr v \<Rightarrow>
          (if ind < length mt then fill_multi_timestamps (mt[ind := Some v]) (Suc ind) rest Tsft
           else Inl IndexError))"

definition make_multi_timestamps ::
  "'eph lalstates \<Rightarrow> string list option \<Rightarrow> ndarray list \<Rightarrow> real option
     \<Rightarrow> error + (MultiLALDetector \<times> LIGOTimeGPSVector option list)" where
  \<comment> \<open>the part of \<^verbatim>\<open>_parse_timestamps_and_detectors\<close> after the branches\<close>
  "make_multi_timestamps S detectors timestamps Tsft =
     (case ParseMultiLALDetector S detectors of
        Inl e \<Rightarrow> Inl e
      | Inr multi_detector \<Rightarrow>
          (case fill_multi_timestamps (replicate (mld_length multi_detector) None) 0
                  timestamps Tsft of
             Inl e \<Rightarrow> Inl e
           | Inr multi_timestamps \<Rightarrow> Inr (multi_detector, multi_timestamps)))"

definition parse_timestamps_and_detectors ::
  "'eph lalstates \<Rightarrow> timestamps_arg \<Rightarrow> real option \<Rightarrow> detectors_arg option
     \<Rightarrow> error + (MultiLALDetector \<times> LIGOTimeGPSVector option list)" where
  "parse_timestamps_and_detectors S timestamps Tsft detectors =
     (case timestamps of
        TsDict d \<Rightarrow>
          (if detectors \<noteq> None then Inl ValueError
           else
             (case dict_call ''key'' d of
                Inl e \<Rightarrow> Inl e
              | Inr (DictKeys ks) \<Rightarrow>
                  (case dict_call ''values'' d of
                     Inl e \<Rightarrow> Inl e
                   | Inr (DictValues vs) \<Rightarrow> make_multi_timestamps S (Some ks) vs Tsft
                   | Inr _ \<Rightarrow> Inl TypeError)
              | Inr _ \<Rightarrow> Inl TypeError))
      | TsArray a \<Rightarrow>
          (case detectors of
             Some dets \<Rightarrow>
               (let detectors' =
                      (case dets of
                         DetString s \<Rightarrow> split_on CHR '','' (remove_spaces s)
                       | DetList l \<Rightarrow> l);
                    ts = a
                in if nd_is_object ts \<or> ndim ts > 1 then Inl ValueError
                   else make_multi_timestamps S (Some detectors')
                          (replicate (length detectors') ts) Tsft)
           | None \<Rightarrow>
               (case ParseMultiLALDetector S None of
                  Inl e \<Rightarrow> Inl e
                | Inr multi_detector \<Rightarrow>
                    (case nd_iter a of
                       Inl e \<Rightarrow> Inl e
                     | Inr items \<Rightarrow>
                         (case fill_multi_timestamps
                                 (replicate (mld_length multi_detector) None) 0 items Tsft of
                            Inl e \<Rightarrow> Inl e
                          | Inr multi_timestamps \<Rightarrow> Inr (multi_detector, multi_timestamps))))))"

definition get_multi_detector_states ::
  "'eph lalstates \<Rightarrow> 'eph \<Rightarrow> timestamps_arg \<Rightarrow> real option \<Rightarrow> detectors_arg option \<Rightarrow> real
     \<Rightarrow> error + MultiDetectorStateSeries" where
  "get_multi_detector_states S ephems timestamps Tsft detectors time_offset =
     (case parse_timestamps_and_detectors S timestamps Tsft detectors of
        Inl e \<Rightarrow> Inl e
      | Inr (multi_detector, multi_timestamps) \<Rightarrow>
          GetMultiDetectorStates S multi_timestamps multi_detector ephems time_offset)"

subsection \<open>\<^verbatim>\<open>utils/runlalsuite.py\<close>\<close>

definition py_or :: "string option \<Rightarrow> string option \<Rightarrow> string option" where
  \<comment> \<open>\<^verbatim>\<open>a or b\<close> on values that are a string or \<^verbatim>\<open>None\<close>\<close>
  "py_or a b = (case a of None \<Rightarrow> b | Some x \<Rightarrow> (if x = [] then b else Some x))"

definition basename :: "string \<Rightarrow> string" where
  \<comment> \<open>\<^verbatim>\<open>os.path.basename\<close>: what follows the last slash\<close>
  "basename p = rev (takeWhile (\<lambda>c. c \<noteq> CHR ''/'') (rev p))"

definition path_join :: "string \<Rightarrow> string \<Rightarrow> string" where
  \<comment> \<open>\<^verbatim>\<open>os.path.join\<close> of two components\<close>
  "path_join a b =
     (if b \<noteq> [] \<and> hd b = CHR ''/'' then b
      else if a = [] \<or> last a = CHR ''/'' then a @ b
      else a @ ''/'' @ b)"

definition get_lal_exec :: "(string \<Rightarrow> string option) \<Rightarrow> string \<Rightarrow> error + string" where
  "get_lal_exec which cmd =
     (case py_or (which (''lalpulsar_'' @ cmd)) (which (''lalapps_'' @ cmd)) of
        None \<Rightarrow> Inl RuntimeError
      | Some full_cmd \<Rightarrow> Inr (basename full_cmd))"

definition PULSAR_MAX_SPINS :: nat where
  \<comment> \<open>the length of \<^verbatim>\<open>fkdot\<close> and \<^verbatim>\<open>fkdotBand\<close> in lalpulsar\<close>
  "PULSAR_MAX_SPINS = 7"

record PulsarSpinRange =
  refTime :: LIGOTimeGPS
  fkdot :: "real list"
  fkdotBand :: "real list"

definition LIGOTimeGPS_of_int :: "int \<Rightarrow> LIGOTimeGPS" where
  \<comment> \<open>\<^verbatim>\<open>lal.LIGOTimeGPS(t)\<close> for a whole number of seconds\<close>
  "LIGOTimeGPS_of_int t = \<lparr>gpsSeconds = t, gpsNanoSeconds = 0\<rparr>"

definition new_PulsarSpinRange :: PulsarSpinRange where
  "new_PulsarSpinRange =
     \<lparr>refTime = LIGOTimeGPS_of_int 0, fkdot = replicate PULSAR_MAX_SPINS 0,
      fkdotBand = replicate PULSAR_MAX_SPINS 0\<rparr>"

type_synonym CWSignalCoveringBand =
  "LIGOTimeGPS \<Rightarrow> LIGOTimeGPS \<Rightarrow> PulsarSpinRange \<Rightarrow> real \<Rightarrow> real \<Rightarrow> real \<Rightarrow> error + (fl \<times> fl)"

definition get_covering_band ::
  "CWSignalCoveringBand \<Rightarrow> int \<Rightarrow> int \<Rightarrow> int \<Rightarrow> real \<Rightarrow> real \<Rightarrow> real \<Rightarrow> real \<Rightarrow> real \<Rightarrow> real
     \<Rightarrow> real \<Rightarrow> real \<Rightarrow> real \<Rightarrow> error + (fl \<times> fl)" where
  "get_covering_band CWSignalCoveringBand tref tstart tend F0 F1 F2 F0band F1band F2band
       maxOrbitAsini minOrbitPeriod maxOrbitEcc =
     (let tref' = LIGOTimeGPS_of_int tref;
          tstart' = LIGOTimeGPS_of_int tstart;
          tend' = LIGOTimeGPS_of_int tend;
          psr = new_PulsarSpinRange;
          psr = psr\<lparr>fkdot := (fkdot psr)[0 := F0]\<rparr>;
          psr = psr\<lparr>fkdot := (fkdot psr)[1 := F1]\<rparr>;
          psr = psr\<lparr>fkdot := (fkdot psr)[2 := F2]\<rparr>;
          psr = psr\<lparr>fkdotBand := (fkdotBand psr)[0 := F0band]\<rparr>;
          psr = psr\<lparr>fkdotBand := (fkdotBand psr)[1 := F1band]\<rparr>;
          psr = psr\<lparr>fkdotBand := (fkdotBand psr)[2 := F2band]\<rparr>;
          psr = psr\<lparr>refTime := tref'\<rparr>
      in case CWSignalCoveringBand tstart' tend' psr maxOrbitAsini minOrbitPeriod maxOrbitEcc of
           Inl e \<Rightarrow> Inl e
         | Inr (minCoverFreq, maxCoverFreq) \<Rightarrow>
             (if isnan minCoverFreq
                 \<or> isnan maxCoverFreq
                 \<or> fl_le minCoverFreq (Fin 0.0)
                 \<or> fl_le maxCoverFreq (Fin 0.0)
                 \<or> fl_lt maxCoverFreq minCoverFreq
              then Inl RuntimeError
              else Inr (minCoverFreq, maxCoverFreq)))"

text \<open>The Python values that reach the command line of \<^verbatim>\<open>generate_loudest_file\<close>.\<close>

datatype pyval = PNone | PBool bool | PInt int | PFloat real | PStr string

fun truthy :: "pyval \<Rightarrow> bool" where
  \<comment> \<open>what \<^verbatim>\<open>if val\<close> tests\<close>
  "truthy PNone = False"
| "truthy (PBool b) = b"
| "truthy (PInt i) = (i \<noteq> 0)"
| "truthy (PFloat x) = (x \<noteq> 0)"
| "truthy (PStr s) = (s \<noteq> [])"

fun str_nat :: "nat \<Rightarrow> string" where
  "str_nat n =
     (if n < 10 then [''0123456789'' ! n]
      else str_nat (n div 10) @ [''0123456789'' ! (n mod 10)])"

definition str_int :: "int \<Rightarrow> string" where
  "str_int i = (if i < 0 then ''-'' @ str_nat (nat (- i)) else str_nat (nat i))"

text \<open>
  \<^verbatim>\<open>f"{val}"\<close>. The digits that Python prints for a float are a parameter.
\<close>

fun py_str :: "(real \<Rightarrow> string) \<Rightarrow> pyval \<Rightarrow> string" where
  "py_str float_str PNone = ''None''"
| "py_str float_str (PBool b) = (if b then ''True'' else ''False'')"
| "py_str float_str (PInt i) = str_int i"
| "py_str float_str (PFloat x) = float_str x"
| "py_str float_str (PStr s) = s"

definition dict_update :: "('k \<times> 'v) list \<Rightarrow> ('k \<times> 'v) list \<Rightarrow> ('k \<times> 'v) list" where
  \<comment> \<open>\<^verbatim>\<open>d.update(other)\<close> on insertion-ordered dictionaries\<close>
  "dict_update d other = fold (\<lambda>(k, v) acc. AList.update k v acc) other d"

fun join :: "string \<Rightarrow> string list \<Rightarrow> string" where
  \<comment> \<open>\<^verbatim>\<open>sep.join(items)\<close>\<close>
  "join sep [] = []"
| "join sep [x] = x"
| "join sep (x # y # ys) = x @ sep @ join sep (y # ys)"

definition has_glitch_parameters :: "(string \<times> pyval) list \<Rightarrow> bool" where
  \<comment> \<open>\<^verbatim>\<open>np.any([key in max_params for key in [...]])\<close>\<close>
  "has_glitch_parameters max_params =
     list_ex (\<lambda>key. key \<in> fst ` set max_params) [''delta_F0'', ''delta_F1'', ''tglitch'']"

definition CFSv2_params ::
  "(string \<times> pyval) list \<Rightarrow> pyval \<Rightarrow> string \<Rightarrow> string \<Rightarrow> string
     \<Rightarrow> pyval \<Rightarrow> pyval \<Rightarrow> pyval \<Rightarrow> pyval \<Rightarrow> pyval \<Rightarrow> (string \<times> pyval) list" where
  \<comment> \<open>the dictionary \<^verbatim>\<open>CFSv2_params\<close> when the command line is built from it\<close>
  "CFSv2_params max_params tref outdir label sftfilepattern
       minStartTime maxStartTime transientWindowType earth_ephem sun_ephem =
     (let loudest_file = path_join outdir (label @ ''.loudest'');
          params = [(''DataFiles'', PStr (''\"'' @ sftfilepattern @ ''\"'')),
                    (''outputLoudest'', PStr loudest_file),
                    (''refTime'', tref)];
          params = dict_update params max_params;
          opt_params = [(''minStartTime'', minStartTime),
                        (''maxStartTime'', maxStartTime),
                        (''transient-WindowType'', transientWindowType),
                        (''ephemEarth'', earth_ephem),
                        (''ephemSun'', sun_ephem)]
      in dict_update params (filter (\<lambda>(key, val). truthy val) opt_params))"

definition loudest_cmd ::
  "(string \<Rightarrow> string option) \<Rightarrow> (real \<Rightarrow> string)
     \<Rightarrow> (string \<times> pyval) list \<Rightarrow> pyval \<Rightarrow> string \<Rightarrow> string \<Rightarrow> string
     \<Rightarrow> pyval \<Rightarrow> pyval \<Rightarrow> pyval \<Rightarrow> pyval \<Rightarrow> pyval \<Rightarrow> error + string" where
  \<comment> \<open>\<^verbatim>\<open>generate_loudest_file\<close> up to the command that it runs\<close>
  "loudest_cmd which float_str max_params tref outdir label sftfilepattern
       minStartTime maxStartTime transientWindowType earth_ephem sun_ephem =
     (if has_glitch_parameters max_params then Inl RuntimeError
      else
        (case get_lal_exec which ''ComputeFstatistic_v2'' of
           Inl e \<Rightarrow> Inl e
         | Inr cmd \<Rightarrow>
             Inr (cmd @ '' '' @
                  join '' ''
                    (map (\<lambda>(key, val). ''--'' @ key @ ''='' @ py_str float_str val)
                       (CFSv2_params max_params tref outdir label sftfilepattern
                          minStartTime maxStartTime transientWindowType earth_ephem sun_ephem)))))"

definition generate_loudest_file ::
  "(string \<Rightarrow> string option) \<Rightarrow> (real \<Rightarrow> string) \<Rightarrow> (string \<Rightarrow> error option)
     \<Rightarrow> (string \<times> pyval) list \<Rightarrow> pyval \<Rightarrow> string \<Rightarrow> string \<Rightarrow> string
     \<Rightarrow> pyval \<Rightarrow> pyval \<Rightarrow> pyval \<Rightarrow> pyval \<Rightarrow> pyval \<Rightarrow> error + string" where
  \<comment> \<open>\<open>run_commandline\<close> gives \<open>Some e\<close> when the command raises \<open>e\<close>\<close>
  "generate_loudest_file which float_str run_commandline max_params tref outdir label
       sftfilepattern minStartTime maxStartTime transientWindowType earth_ephem sun_ephem =
     (case loudest_cmd which float_str max_params tref outdir label sftfilepattern
             minStartTime maxStartTime transientWindowType earth_ephem sun_ephem of
        Inl e \<Rightarrow> Inl e
      | Inr cmd \<Rightarrow>
          (case run_commandline cmd of
             Some e \<Rightarrow> Inl e
           | None \<Rightarrow> Inr (path_join outdir (label @ ''.loudest''))))"

subsection \<open>Concrete inputs\<close>

text \<open>
  Small inputs on which the functions are evaluated below: a one-detector state series
  with 1800-second SFTs, the ways to fill the two noise fields, and stand-ins for the
  library functions.
\<close>

definition example_states :: MultiDetectorStateSeries where
  "example_states = \<lparr>mdss_data = [\<lparr>dss_deltaT = 1800\<rparr>]\<rparr>"

definition example_flat_floor :: "unit SignalToNoiseRatio" where
  "example_flat_floor =
     \<lparr>detector_states = example_states, noise_weights = None, assumeSqrtSX = Some 2\<rparr>"


definition example_tiny_floor :: "unit SignalToNoiseRatio" where
  "example_tiny_floor =
     \<lparr>detector_states = example_states, noise_weights = None,
      assumeSqrtSX = Some (pow2 (- 600))\<rparr>"

definition example_huge_floor :: "unit SignalToNoiseRatio" where
  "example_huge_floor =
     \<lparr>detector_states = example_states, noise_weights = None, assumeSqrtSX = Some (pow2 600)\<rparr>"




definition example_object :: "unit SNR_object" where
  "example_object =
     SignalToNoiseRatio.extend example_flat_floor
       \<lparr>self_Tsft = 1800, self_Sinv_Tsft = Some (Fin 450)\<rparr>"

definition wrap_longitude :: "real \<Rightarrow> real \<Rightarrow> real \<times> real" where
  \<comment> \<open>a normalizer that changes an out-of-range longitude (period 6, for the example)\<close>
  "wrap_longitude lon lat = (lon - 6 * of_int \<lfloor>lon / 6\<rfloor>, lat)"

definition echo_sky ::
  "MultiDetectorStateSeries \<Rightarrow> unit option \<Rightarrow> SkyPosition \<Rightarrow> error + MultiAMCoeffs" where
  \<comment> \<open>shows in \<open>Ad\<close> and \<open>Bd\<close> the sky position that the library was handed\<close>
  "echo_sky ds nw sky =
     Inr \<lparr>Mmunu = \<lparr>Ad = longitude sky, Bd = latitude sky, Cd = 0, Ed = 0, Dd = 1,
                    apm_Sinv_Tsft = Fin 1\<rparr>\<rparr>"

definition snr2_minus_one :: "PulsarAmplitudeParams \<Rightarrow> AntennaPatternMatrix \<Rightarrow> error + fl" where
  "snr2_minus_one A M = Inr (Fin (- 1))"


definition snr2_sum :: "PulsarAmplitudeParams \<Rightarrow> AntennaPatternMatrix \<Rightarrow> error + fl" where
  "snr2_sum A M =
     (case (apm_Sinv_Tsft M, pap_aPlus A, pap_aCross A) of
        (Fin s, Fin p, Fin c) \<Rightarrow> Inr (Fin (s * (p\<^sup>2 + c\<^sup>2)))
      | _ \<Rightarrow> Inr NaN)"

definition example_lal :: "unit lalsuite" where
  "example_lal =
     \<lparr>NormalizeSkyPosition = wrap_longitude, ComputeMultiAMCoeffs = echo_sky,
      ComputeOptimalSNR2FromMmunu = snr2_sum\<rparr>"

definition example_lal_negative :: "unit lalsuite" where
  "example_lal_negative =
     \<lparr>NormalizeSkyPosition = wrap_longitude, ComputeMultiAMCoeffs = echo_sky,
      ComputeOptimalSNR2FromMmunu = snr2_minus_one\<rparr>"


definition band_around_100 :: CWSignalCoveringBand where
  "band_around_100 tstart tend psr a p e = Inr (Fin 99, Fin 101)"

definition band_unbounded :: CWSignalCoveringBand where
  "band_unbounded tstart tend psr a p e = Inr (Fin 1, PInf)"

definition example_array :: ndarray where
  "example_array = \<lparr>nd_shape = [2], nd_is_object = False, nd_values = [5 / 4, 3]\<rparr>"

definition three_tenths :: real where
  \<comment> \<open>the float that Python reads for \<^verbatim>\<open>0.3\<close>\<close>
  "three_tenths = float64 5404319552844595 (- 54)"

definition example_three_tenths :: ndarray where
  "example_three_tenths =
     \<lparr>nd_shape = [1], nd_is_object = False, nd_values = [three_tenths]\<rparr>"

definition example_late :: ndarray where
  "example_late = \<lparr>nd_shape = [1], nd_is_object = False, nd_values = [2 ^ 31]\<rparr>"

definition example_which :: "string \<Rightarrow> string option" where
  "example_which name =
     (if name = ''lalpulsar_ComputeFstatistic_v2'' then Some (''/usr/bin/'' @ name) else None)"

definition example_float_str :: "real \<Rightarrow> string" where
  "example_float_str x = ''100.0''"

definition falsy_to_None :: "pyval \<Rightarrow> pyval" where
  "falsy_to_None v = (if truthy v then v else PNone)"

section \<open>Properties\<close>

declare str_nat.simps [simp del]

subsection \<open>Rounding to binary64\<close>

lemma pow2_powr: "pow2 e = 2 powr of_int e"
proof (cases "0 \<le> e")
  case True
  then have "2 powr (of_int e :: real) = 2 ^ nat e"
    by (metis of_nat_nat powr_realpow zero_less_numeral of_int_of_nat_eq)
  with True show ?thesis by (simp add: pow2_def)
next
  case False
  then have "2 powr (of_int (- e) :: real) = 2 ^ nat (- e)"
    by (metis of_int_of_nat_eq of_nat_nat powr_realpow zero_less_numeral neg_0_le_iff_le linear)
  moreover have "2 powr (of_int e :: real) = inverse (2 powr (of_int (- e)))"
    by (simp add: powr_minus)
  ultimately have "2 powr (of_int e :: real) = 1 / 2 ^ nat (- e)"
    by (simp add: inverse_eq_divide)
  with False show ?thesis by (simp add: pow2_def)
qed

lemma pow2_pos: "0 < pow2 e"
  by (simp add: pow2_powr)

lemma pow2_add: "pow2 (a + b) = pow2 a * pow2 b"
  by (simp add: pow2_powr powr_add)

lemma pow2_le: "a \<le> b \<Longrightarrow> pow2 a \<le> pow2 b"
  by (simp add: pow2_powr)

lemma pow2_less: "a < b \<Longrightarrow> pow2 a < pow2 b"
  by (simp add: pow2_powr)

lemma pow2_0: "pow2 0 = 1"
  by (simp add: pow2_def)

lemma pow2_1: "pow2 1 = 2"
  by (simp add: pow2_def)

lemma pow2_minus: "pow2 (- e) = 1 / pow2 e"
  by (simp add: pow2_powr powr_minus_divide)

lemma pow2_sq: "(pow2 e)\<^sup>2 = pow2 (2 * e)"
  using pow2_add [of e e] by (simp add: power2_eq_square)

lemma pow2_of_int: "0 \<le> d \<Longrightarrow> pow2 d = of_int (2 ^ nat d)"
  by (simp add: pow2_def)

lemma ulp64_pos: "0 < ulp64 x"
  by (simp add: ulp64_def pow2_pos)

lemma rne_cases: "rne y = \<lfloor>y\<rfloor> \<or> rne y = \<lfloor>y\<rfloor> + 1"
  by (simp add: rne_def Let_def)

lemma rne_of_int: "rne (of_int n) = n"
  by (simp add: rne_def)

lemma rne_ge: "of_int n \<le> y \<Longrightarrow> n \<le> rne y"
proof -
  assume "of_int n \<le> y"
  then have "n \<le> \<lfloor>y\<rfloor>" by (simp add: le_floor_iff)
  then show ?thesis using rne_cases [of y] by auto
qed

lemma rne_le: "y \<le> of_int n \<Longrightarrow> rne y \<le> n"
proof (cases "y = of_int n")
  case True
  then show ?thesis by (simp add: rne_of_int)
next
  case False
  assume "y \<le> of_int n"
  with False have "y < of_int n" by simp
  then have "\<lfloor>y\<rfloor> < n" by (simp add: floor_less_iff)
  then show ?thesis using rne_cases [of y] by auto
qed

lemma rne_err: "\<bar>of_int (rne y) - y\<bar> \<le> 1 / 2"
proof -
  define n where "n = \<lfloor>y\<rfloor>"
  define r where "r = y - of_int n"
  have r: "0 \<le> r" "r < 1" unfolding r_def n_def by linarith+
  have "rne y = (if r < 1 / 2 then n else if 1 / 2 < r then n + 1
                 else if even n then n else n + 1)"
    by (simp add: rne_def Let_def n_def r_def)
  then have "of_int (rne y) - y = (if r < 1 / 2 then - r else if 1 / 2 < r then 1 - r
                 else if even n then - r else 1 - r)"
    by (simp add: r_def)
  then show ?thesis using r by (simp add: abs_if split: if_splits)
qed

lemma rne_zero: "\<bar>y\<bar> < 1 / 2 \<Longrightarrow> rne y = 0"
proof -
  assume a: "\<bar>y\<bar> < 1 / 2"
  show ?thesis
  proof (cases "0 \<le> y")
    case True
    with a have "\<lfloor>y\<rfloor> = 0" by (simp add: floor_eq_iff)
    with a True show ?thesis by (simp add: rne_def)
  next
    case False
    with a have "\<lfloor>y\<rfloor> = - 1" by (simp add: floor_eq_iff)
    with a False show ?thesis by (simp add: rne_def)
  qed
qed

lemma rnd64_grid_ge: "of_int j * ulp64 x \<le> x \<Longrightarrow> of_int j * ulp64 x \<le> rnd64 x"
proof -
  assume "of_int j * ulp64 x \<le> x"
  then have "of_int j \<le> x / ulp64 x"
    using ulp64_pos [of x] by (simp add: pos_le_divide_eq)
  then have "j \<le> rne (x / ulp64 x)" by (rule rne_ge)
  then have "(of_int j :: real) \<le> of_int (rne (x / ulp64 x))" by simp
  then show ?thesis
    unfolding rnd64_def using ulp64_pos [of x] by (simp add: mult_right_mono)
qed

lemma rnd64_grid_le: "x \<le> of_int j * ulp64 x \<Longrightarrow> rnd64 x \<le> of_int j * ulp64 x"
proof -
  assume "x \<le> of_int j * ulp64 x"
  then have "x / ulp64 x \<le> of_int j"
    using ulp64_pos [of x] by (simp add: pos_divide_le_eq)
  then have "rne (x / ulp64 x) \<le> j" by (rule rne_le)
  then have "(of_int (rne (x / ulp64 x)) :: real) \<le> of_int j" by simp
  then show ?thesis
    unfolding rnd64_def using ulp64_pos [of x] by (simp add: mult_right_mono)
qed

lemma rnd64_err: "\<bar>rnd64 x - x\<bar> \<le> ulp64 x / 2"
proof -
  have "rnd64 x - x = (of_int (rne (x / ulp64 x)) - x / ulp64 x) * ulp64 x"
    using ulp64_pos [of x] by (simp add: rnd64_def field_simps)
  then have "\<bar>rnd64 x - x\<bar> = \<bar>of_int (rne (x / ulp64 x)) - x / ulp64 x\<bar> * ulp64 x"
    using ulp64_pos [of x] by (simp add: abs_mult)
  also have "\<dots> \<le> 1 / 2 * ulp64 x"
    using rne_err [of "x / ulp64 x"] ulp64_pos [of x] by (intro mult_right_mono) auto
  finally show ?thesis by simp
qed

lemma expo64_ge: "- 1022 \<le> expo64 x"
  by (simp add: expo64_def)

lemma expo64_le:
  assumes "\<bar>x\<bar> < pow2 n" and "- 1022 \<le> n - 1"
  shows "expo64 x \<le> n - 1"
proof (cases "x = 0")
  case True
  with assms show ?thesis by (simp add: expo64_def)
next
  case False
  then have "log 2 \<bar>x\<bar> < of_int n"
    using assms(1) by (simp add: log_less_iff pow2_powr)
  then have "\<lfloor>log 2 \<bar>x\<bar>\<rfloor> < n" by (simp add: floor_less_iff)
  with assms False show ?thesis by (simp add: expo64_def)
qed

lemma expo64_lower:
  assumes "pow2 n \<le> \<bar>x\<bar>"
  shows "n \<le> expo64 x"
proof -
  have nz: "x \<noteq> 0" using assms pow2_pos [of n] by auto
  then have "of_int n \<le> log 2 \<bar>x\<bar>" using assms by (simp add: le_log_iff pow2_powr)
  then have "n \<le> \<lfloor>log 2 \<bar>x\<bar>\<rfloor>" by (simp add: le_floor_iff)
  with nz show ?thesis by (simp add: expo64_def)
qed

lemma pow2_expo64_le:
  assumes "pow2 n \<le> \<bar>x\<bar>" and "- 1022 \<le> n"
  shows "pow2 (expo64 x) \<le> \<bar>x\<bar>"
proof -
  have nz: "x \<noteq> 0" using assms pow2_pos [of n] by auto
  have "of_int n \<le> log 2 \<bar>x\<bar>" using assms nz by (simp add: le_log_iff pow2_powr)
  then have "n \<le> \<lfloor>log 2 \<bar>x\<bar>\<rfloor>" by (simp add: le_floor_iff)
  with assms(2) nz have e: "expo64 x = \<lfloor>log 2 \<bar>x\<bar>\<rfloor>" by (simp add: expo64_def)
  have "of_int \<lfloor>log 2 \<bar>x\<bar>\<rfloor> \<le> log 2 \<bar>x\<bar>" by simp
  then have "2 powr of_int \<lfloor>log 2 \<bar>x\<bar>\<rfloor> \<le> 2 powr log 2 \<bar>x\<bar>"
    by simp
  with nz e show ?thesis by (simp add: pow2_powr)
qed

lemma ulp64_le:
  assumes "\<bar>x\<bar> < pow2 n" and "- 1022 \<le> n - 1"
  shows "ulp64 x \<le> pow2 (n - 53)"
proof -
  have "expo64 x \<le> n - 1" using assms by (rule expo64_le)
  then have "expo64 x - 52 \<le> n - 53" by simp
  then show ?thesis unfolding ulp64_def by (rule pow2_le)
qed

text \<open>A multiple of \<open>2\<^sup>n\<close> is on the grid of \<open>x\<close> when \<open>n\<close> is at least the grid's exponent.\<close>

lemma on_grid:
  assumes "expo64 x - 52 \<le> n"
  shows "\<exists>j. of_int k * pow2 n = of_int j * ulp64 x"
proof -
  define d where "d = n - (expo64 x - 52)"
  have d: "0 \<le> d" using assms by (simp add: d_def)
  have "pow2 n = pow2 ((expo64 x - 52) + d)" by (simp add: d_def)
  also have "\<dots> = ulp64 x * of_int (2 ^ nat d)"
    using d by (simp only: pow2_add pow2_of_int ulp64_def)
  finally have "of_int k * pow2 n = of_int (k * 2 ^ nat d) * ulp64 x"
    by simp
  then show ?thesis by blast
qed

lemma rnd64_mono_grid:
  assumes "\<bar>x\<bar> < pow2 (n + 53)" and "- 1074 \<le> n"
  shows "of_int k * pow2 n \<le> x \<Longrightarrow> of_int k * pow2 n \<le> rnd64 x"
    and "x \<le> of_int k * pow2 n \<Longrightarrow> rnd64 x \<le> of_int k * pow2 n"
proof -
  have "expo64 x \<le> (n + 53) - 1" using assms by (intro expo64_le) auto
  then have "expo64 x - 52 \<le> n" by simp
  then obtain j where j: "of_int k * pow2 n = of_int j * ulp64 x"
    using on_grid by blast
  show "of_int k * pow2 n \<le> x \<Longrightarrow> of_int k * pow2 n \<le> rnd64 x"
    unfolding j by (rule rnd64_grid_ge)
  show "x \<le> of_int k * pow2 n \<Longrightarrow> rnd64 x \<le> of_int k * pow2 n"
    unfolding j by (rule rnd64_grid_le)
qed

lemma pow2_53: "pow2 53 = 2 ^ 53"
  by (simp add: pow2_def)

lemma rnd64_int_ge: "\<bar>x\<bar> < 2 ^ 53 \<Longrightarrow> of_int k \<le> x \<Longrightarrow> of_int k \<le> rnd64 x"
  using rnd64_mono_grid(1) [of x 0 k] by (simp add: pow2_53 pow2_0)

lemma rnd64_int_le: "\<bar>x\<bar> < 2 ^ 53 \<Longrightarrow> x \<le> of_int k \<Longrightarrow> rnd64 x \<le> of_int k"
  using rnd64_mono_grid(2) [of x 0 k] by (simp add: pow2_53 pow2_0)

lemma abs_mantissa:
  assumes "\<bar>m\<bar> < 2 ^ 53"
  shows "\<bar>of_int m :: real\<bar> \<le> pow2 53 - 1"
proof -
  have "\<bar>m\<bar> \<le> 2 ^ 53 - 1" using assms by simp
  then have "(of_int \<bar>m\<bar> :: real) \<le> of_int (2 ^ 53 - 1)" by (simp only: of_int_le_iff)
  then show ?thesis by (simp add: pow2_53)
qed

lemma rnd64_float64:
  assumes "\<bar>m\<bar> < 2 ^ 53" and "- 1074 \<le> e"
  shows "rnd64 (float64 m e) = float64 m e"
proof -
  have "\<bar>of_int m :: real\<bar> < pow2 53" using abs_mantissa [OF assms(1)] by simp
  then have "\<bar>float64 m e\<bar> < pow2 53 * pow2 e"
    using pow2_pos [of e] by (simp add: float64_def abs_mult)
  also have "\<dots> = pow2 (e + 53)"
    using pow2_add [of e 53] by simp
  finally have b: "\<bar>float64 m e\<bar> < pow2 (e + 53)" .
  show ?thesis
    using rnd64_mono_grid [OF b assms(2), of m] by (simp add: float64_def)
qed

lemma rnd64_ge_pow2_expo64:
  assumes "pow2 n \<le> x" and "- 1022 \<le> n"
  shows "pow2 (expo64 x) \<le> rnd64 x"
proof -
  have "0 < x" using assms(1) pow2_pos [of n] by linarith
  then have "pow2 n \<le> \<bar>x\<bar>" using assms(1) by simp
  then have "pow2 (expo64 x) \<le> \<bar>x\<bar>" using assms(2) by (rule pow2_expo64_le)
  with \<open>0 < x\<close> have le: "pow2 (expo64 x) \<le> x" by simp
  have g: "of_int (2 ^ 52) * ulp64 x = pow2 (expo64 x)"
    using pow2_add [of 52 "expo64 x - 52"] by (simp add: ulp64_def pow2_def)
  from le have "of_int (2 ^ 52) * ulp64 x \<le> x" by (simp only: g)
  then have "of_int (2 ^ 52) * ulp64 x \<le> rnd64 x" by (rule rnd64_grid_ge)
  then show ?thesis by (simp only: g)
qed

lemma rnd64_underflow:
  assumes "\<bar>x\<bar> < pow2 (- 1075)"
  shows "rnd64 x = 0"
proof -
  have "pow2 (- 1075) \<le> pow2 (- 1021)" by (rule pow2_le) simp
  with assms have "\<bar>x\<bar> < pow2 (- 1021)" by simp
  then have "expo64 x \<le> - 1021 - 1" by (intro expo64_le) auto
  with expo64_ge [of x] have "expo64 x = - 1022" by simp
  then have u: "ulp64 x = pow2 (- 1074)" by (simp add: ulp64_def)
  have "pow2 (- 1074) = pow2 (- 1075) * 2"
    using pow2_add [of "- 1075" 1] by (simp add: pow2_1)
  with assms have "\<bar>x\<bar> < pow2 (- 1074) * (1 / 2)" by simp
  then have "\<bar>x / ulp64 x\<bar> < 1 / 2"
    unfolding u using pow2_pos [of "- 1074"] by (simp add: abs_divide pos_divide_less_eq)
  then show ?thesis by (simp add: rnd64_def rne_zero)
qed

lemma max64_less: "max64 < pow2 1024"
proof -
  have "(pow2 53 - 1) * pow2 971 < pow2 53 * pow2 971"
    using pow2_pos [of 971] by (intro mult_strict_right_mono) auto
  also have "\<dots> = pow2 1024" using pow2_add [of 53 971] by simp
  finally show ?thesis by (simp only: max64_def)
qed

lemma max64_ge: "pow2 1023 \<le> max64"
proof -
  have a: "pow2 53 * pow2 971 = 2 * pow2 1023"
    using pow2_add [of 53 971] pow2_add [of 1 1023] by (simp add: pow2_1)
  have "pow2 971 \<le> pow2 1023" by (rule pow2_le) simp
  moreover have "max64 = pow2 53 * pow2 971 - pow2 971"
    by (simp add: max64_def left_diff_distrib)
  ultimately show ?thesis using a by simp
qed

lemma abs_float64_le_max64:
  assumes "\<bar>m\<bar> < 2 ^ 53" and "e \<le> 971"
  shows "\<bar>float64 m e\<bar> \<le> max64"
proof -
  have m: "\<bar>of_int m :: real\<bar> \<le> pow2 53 - 1" using assms(1) by (rule abs_mantissa)
  have e: "pow2 e \<le> pow2 971" using assms(2) by (rule pow2_le)
  have "\<bar>float64 m e\<bar> = \<bar>of_int m :: real\<bar> * pow2 e"
    using pow2_pos [of e] by (simp add: float64_def abs_mult)
  also have "\<dots> \<le> (pow2 53 - 1) * pow2 971"
    using m e pow2_pos [of e] by (intro mult_mono) auto
  finally show ?thesis by (simp only: max64_def)
qed

lemma round64_float64:
  assumes "\<bar>m\<bar> < 2 ^ 53" and "- 1074 \<le> e" and "e \<le> 971"
  shows "round64 (float64 m e) = Fin (float64 m e)"
proof -
  have "\<bar>float64 m e\<bar> \<le> max64" using assms(1) assms(3) by (rule abs_float64_le_max64)
  then have "\<not> max64 < float64 m e" "\<not> float64 m e < - max64" by linarith+
  then show ?thesis
    using rnd64_float64 [OF assms(1) assms(2)] by (simp add: round64_def Let_def)
qed

lemma round64_small:
  "round64 0 = Fin 0" "round64 1 = Fin 1" "round64 2 = Fin 2" "round64 (1 / 2) = Fin (1 / 2)"
  using round64_float64 [of 0 0] round64_float64 [of 1 0] round64_float64 [of 2 0]
    round64_float64 [of 1 "- 1"]
  by (simp_all add: float64_def pow2_def)

lemma one_le_max64: "1 \<le> max64"
proof -
  have "pow2 0 \<le> pow2 1023" by (rule pow2_le) simp
  with max64_ge show ?thesis by (simp add: pow2_0)
qed

lemma py_pow2_one: "py_pow2 1 = Inr 1"
proof -
  have "rnd64 1 = 1" using rnd64_float64 [of 1 0] by (simp add: float64_def pow2_0)
  with one_le_max64 show ?thesis by (simp add: py_pow2_def)
qed




lemma py_pow2_underflow:
  assumes "\<bar>a\<bar> \<le> pow2 (- 538)"
  shows "py_pow2 a = Inr 0"
proof -
  have "\<bar>a\<bar>\<^sup>2 \<le> (pow2 (- 538))\<^sup>2" using assms by (intro power_mono) auto
  then have "a\<^sup>2 \<le> pow2 (- 1076)" by (simp add: pow2_sq)
  moreover have "pow2 (- 1076) < pow2 (- 1075)" by (rule pow2_less) simp
  ultimately have "\<bar>a\<^sup>2\<bar> < pow2 (- 1075)" by simp
  then have "rnd64 (a\<^sup>2) = 0" by (rule rnd64_underflow)
  with one_le_max64 show ?thesis by (simp add: py_pow2_def)
qed

lemma py_pow2_overflow:
  assumes "pow2 512 \<le> \<bar>a\<bar>"
  shows "py_pow2 a = Inl OverflowError"
proof -
  have "(pow2 512)\<^sup>2 \<le> \<bar>a\<bar>\<^sup>2"
    using assms pow2_pos [of 512] by (intro power_mono) auto
  then have sq: "pow2 1024 \<le> a\<^sup>2" by (simp add: pow2_sq)
  then have "pow2 1024 \<le> \<bar>a\<^sup>2\<bar>" by simp
  then have "1024 \<le> expo64 (a\<^sup>2)" by (rule expo64_lower)
  then have "pow2 1024 \<le> pow2 (expo64 (a\<^sup>2))" by (rule pow2_le)
  moreover have "pow2 (expo64 (a\<^sup>2)) \<le> rnd64 (a\<^sup>2)"
    using sq by (rule rnd64_ge_pow2_expo64) simp
  ultimately have "pow2 1024 \<le> rnd64 (a\<^sup>2)" by simp
  with max64_less have "max64 < \<bar>rnd64 (a\<^sup>2)\<bar>" by simp
  then show ?thesis by (simp add: py_pow2_def)
qed

lemma py_pow2_error: "py_pow2 a = Inl e \<Longrightarrow> e = OverflowError"
  by (auto simp: py_pow2_def Let_def split: if_splits)


subsection \<open>Amplitude parameters\<close>

lemma convert_raises_ValueError_iff:
  "convert_amplitude_parameters h0 cosi aPlus aCross = Inl ValueError \<longleftrightarrow>
     ((h0 \<noteq> None \<and> cosi \<noteq> None) = (aPlus \<noteq> None \<and> aCross \<noteq> None))"
  by (auto simp: convert_amplitude_parameters_def Let_def split: sum.splits
      dest: py_pow2_error)

lemma convert_aPlus_aCross:
  "convert_amplitude_parameters None None (Some aPlus) (Some aCross)
     = Inr (Some (Fin aPlus), Some (Fin aCross))"
  by (simp add: convert_amplitude_parameters_def)

lemma convert_success_complete:
  "convert_amplitude_parameters h0 cosi aPlus aCross = Inr (p, c) \<Longrightarrow> p \<noteq> None \<and> c \<noteq> None"
  by (auto simp: convert_amplitude_parameters_def Let_def split: if_splits sum.splits)

lemma f64_mul_Fin: "f64_mul (Fin x) (Fin y) = round64 (x * y)"
  by (simp add: f64_mul_def)

text \<open>
  C1. The conversion raises \<^verbatim>\<open>ValueError\<close> exactly when the two bases are both complete
  or both incomplete (\<open>convert_raises_ValueError_iff\<close>), so a basis filled by half goes
  through when the other basis is complete: \<^verbatim>\<open>h0\<close> alone with \<^verbatim>\<open>aPlus\<close> and \<^verbatim>\<open>aCross\<close>
  returns the latter two, and \<^verbatim>\<open>aPlus\<close> alone with \<^verbatim>\<open>h0\<close> and \<^verbatim>\<open>cosi\<close> returns the
  conversion of the latter two. No \<^verbatim>\<open>ValueError\<close> is raised, against the docstring of
  \<^verbatim>\<open>compute_snr2\<close> (each parameter "conflicts with" the other pair) and the claim.
\<close>

theorem convert_partial_basis_accepted:
  "convert_amplitude_parameters (Some 1) None (Some 2) (Some 3)
     = Inr (Some (Fin 2), Some (Fin 3))
   \<and> convert_amplitude_parameters (Some 1) (Some 1) (Some 5) None
     = Inr (Some (Fin 1), Some (Fin 1))"
  by (simp add: convert_amplitude_parameters_def py_pow2_one round64_small f64_mul_Fin)






subsection \<open>Construction of \<^verbatim>\<open>SignalToNoiseRatio\<close>\<close>

lemma attrs_post_init_floor_examples:
  "attrs_post_init example_tiny_floor = Inl ZeroDivisionError"
  "attrs_post_init example_huge_floor = Inl OverflowError"
proof -
  have "\<bar>pow2 (- 600)\<bar> \<le> pow2 (- 538)"
    using pow2_le [of "- 600" "- 538"] pow2_pos [of "- 600"] by simp
  then have "py_pow2 (pow2 (- 600)) = Inr 0" by (rule py_pow2_underflow)
  then show "attrs_post_init example_tiny_floor = Inl ZeroDivisionError"
    by (simp add: attrs_post_init_def example_tiny_floor_def example_states_def py_truediv_def)
  have "pow2 512 \<le> \<bar>pow2 600\<bar>" using pow2_le [of 512 600] pow2_pos [of 600] by simp
  then have "py_pow2 (pow2 600) = Inl OverflowError" by (rule py_pow2_overflow)
  then show "attrs_post_init example_huge_floor = Inl OverflowError"
    by (simp add: attrs_post_init_def example_huge_floor_def example_states_def)
qed






subsection \<open>The antenna-pattern matrix\<close>

lemma compute_Mmunu_sky:
  "compute_Mmunu L self Alpha Delta =
    (case ComputeMultiAMCoeffs L (detector_states self) (noise_weights self)
            \<lparr>longitude = Alpha, latitude = Delta, system = COORDINATESYSTEM_EQUATORIAL\<rparr> of
       Inl e \<Rightarrow> Inl e
     | Inr coeffs \<Rightarrow>
         (if noise_weights self = None then
            (case self_Sinv_Tsft self of
               None \<Rightarrow> Inl AttributeError
             | Some s \<Rightarrow> Inr ((Mmunu coeffs)\<lparr>apm_Sinv_Tsft := s\<rparr>))
          else Inr (Mmunu coeffs)))"
  by (simp add: compute_Mmunu_def)

lemma compute_Mmunu_example:
  "compute_Mmunu example_lal example_object 7 0
     = Inr \<lparr>Ad = 7, Bd = 0, Cd = 0, Ed = 0, Dd = 1, apm_Sinv_Tsft = Fin 450\<rparr>"
  "compute_Mmunu example_lal example_object 1 0
     = Inr \<lparr>Ad = 1, Bd = 0, Cd = 0, Ed = 0, Dd = 1, apm_Sinv_Tsft = Fin 450\<rparr>"
  "NormalizeSkyPosition example_lal 7 0 = (1, 0)"
  by (simp_all add: compute_Mmunu_def example_lal_def example_object_def example_flat_floor_def
       echo_sky_def wrap_longitude_def SignalToNoiseRatio.defs)

text \<open>
  C8. \<^verbatim>\<open>lal.NormalizeSkyPosition(sky.longitude, sky.latitude)\<close> is handed two floats and
  its result is dropped, so \<^verbatim>\<open>sky\<close> keeps \<^verbatim>\<open>Alpha\<close> and \<^verbatim>\<open>Delta\<close> as they were given:
  whatever the normalizer computes, \<^verbatim>\<open>compute_Mmunu\<close> returns the same, and
  \<^verbatim>\<open>ComputeMultiAMCoeffs\<close> receives the position as supplied (\<open>compute_Mmunu_sky\<close>; at
  \<^verbatim>\<open>Alpha = 7\<close>, \<open>compute_Mmunu_example\<close>). The position is not normalized before use.
\<close>

theorem compute_Mmunu_ignores_normalization:
  "compute_Mmunu (L\<lparr>NormalizeSkyPosition := N\<rparr>) self Alpha Delta
     = compute_Mmunu L self Alpha Delta"
  by (simp add: compute_Mmunu_def)

subsection \<open>Squared SNR and the expected 2F\<close>

text \<open>
  C3, as stated, fails on the Python: \<^verbatim>\<open>compute_snr2\<close> returns the value of
  \<^verbatim>\<open>lalpulsar.ComputeOptimalSNR2FromMmunu\<close> without looking at it. With a library
  function that gives \<open>-1\<close>, \<open>-1\<close> is returned.
\<close>

theorem compute_snr2_negative_counterexample:
  "compute_snr2 example_lal_negative example_object 0 0 0 0 (Some 1) (Some 1) None None
     = Inr (Fin (- 1))
   \<and> fl_lt (Fin (- 1)) (Fin 0)"
  by (simp add: compute_snr2_def convert_amplitude_parameters_def compute_Mmunu_def
       example_lal_negative_def example_object_def example_flat_floor_def
       echo_sky_def snr2_minus_one_def SignalToNoiseRatio.defs
       py_pow2_one round64_small f64_mul_Fin)

text \<open>
  C3, amended. \<^verbatim>\<open>compute_snr2\<close> has no check of its own: when the amplitude parameters
  pass validation and \<^verbatim>\<open>compute_Mmunu\<close> returns a matrix, its result is the result of
  \<^verbatim>\<open>lalpulsar.ComputeOptimalSNR2FromMmunu\<close> on the converted amplitudes and that
  matrix, value or error, whatever the value.
\<close>

theorem compute_snr2_returns_library_value:
  assumes "convert_amplitude_parameters h0 cosi aPlus aCross = Inr (Some ap, Some ac)"
    and "compute_Mmunu L self Alpha Delta = Inr M"
  shows "compute_snr2 L self Alpha Delta psi phi0 h0 cosi aPlus aCross
     = ComputeOptimalSNR2FromMmunu L
         \<lparr>pap_psi = psi, pap_phi0 = phi0, pap_aPlus = ap, pap_aCross = ac\<rparr> M"
  using assms by (simp add: compute_snr2_def)

theorem compute_snr2_returns_library_value_witness:
  "convert_amplitude_parameters (Some 2) (Some 1) None None
       = Inr (Some (Fin 2), Some (Fin 2))
   \<and> compute_Mmunu example_lal example_object 1 0
       = Inr \<lparr>Ad = 1, Bd = 0, Cd = 0, Ed = 0, Dd = 1, apm_Sinv_Tsft = Fin 450\<rparr>
   \<and> compute_snr2 example_lal example_object 1 0 0 0 (Some 2) (Some 1) None None
       = Inr (Fin 3600)"
proof -
  have c: "convert_amplitude_parameters (Some 2) (Some 1) None None
       = Inr (Some (Fin 2), Some (Fin 2))"
    by (simp add: convert_amplitude_parameters_def py_pow2_one round64_small f64_mul_Fin)
  have m: "compute_Mmunu example_lal example_object 1 0
       = Inr \<lparr>Ad = 1, Bd = 0, Cd = 0, Ed = 0, Dd = 1, apm_Sinv_Tsft = Fin 450\<rparr>"
    by (rule compute_Mmunu_example)
  have "compute_snr2 example_lal example_object 1 0 0 0 (Some 2) (Some 1) None None
       = Inr (Fin 3600)"
    using compute_snr2_returns_library_value [OF c m, of 0 0]
    by (simp add: example_lal_def snr2_sum_def)
  with c m show ?thesis by simp
qed



subsection \<open>Timestamps and detectors\<close>

text \<open>
  C2. With a dictionary of timestamps and no \<^verbatim>\<open>detectors\<close>, the branch asks the
  dictionary for \<^verbatim>\<open>key\<close>, which \<^verbatim>\<open>dict\<close> does not have: \<^verbatim>\<open>AttributeError\<close> is raised
  for every dictionary, before any detector name or timestamp is read. The docstring
  ("gets detector names from the keys") and the claim say that the path succeeds.
\<close>

theorem dict_timestamps_raise:
  "get_multi_detector_states S ephems (TsDict d) Tsft None time_offset = Inl AttributeError"
  by (simp add: get_multi_detector_states_def parse_timestamps_and_detectors_def dict_call_def)


lemma py_int_of_int: "py_int (Fin (of_int k)) = Inr k"
  by (simp add: py_int_def)

lemma pow2_30: "pow2 30 = 1073741824"
  by (simp add: pow2_def)

lemma small_le_max64: "\<bar>y\<bar> \<le> 1000000000 \<Longrightarrow> \<not> max64 < y \<and> \<not> y < - max64"
proof -
  assume "\<bar>y\<bar> \<le> 1000000000"
  then have y: "- 1000000000 \<le> y" "y \<le> 1000000000" by (simp_all add: abs_le_iff)
  have "pow2 30 \<le> pow2 1023" by (rule pow2_le) simp
  with max64_ge have "1000000000 \<le> max64" by (simp add: pow2_30)
  with y show ?thesis by simp
qed

lemma frac_round:
  assumes "0 \<le> d" and "d < 1"
  shows "round64 d = Fin (rnd64 d)" and "0 \<le> rnd64 d" and "rnd64 d \<le> 1"
    and "\<bar>rnd64 d - d\<bar> \<le> pow2 (- 54)"
proof -
  have b: "\<bar>d\<bar> < 2 ^ 53" using assms by simp
  have "of_int 0 \<le> rnd64 d" using b assms(1) by (intro rnd64_int_ge) simp_all
  then show l: "0 \<le> rnd64 d" by simp
  have "rnd64 d \<le> of_int 1" using b assms(2) by (intro rnd64_int_le) simp_all
  then show u: "rnd64 d \<le> 1" by simp
  from l u have "\<bar>rnd64 d\<bar> \<le> 1000000000" by simp
  then show "round64 d = Fin (rnd64 d)"
    using small_le_max64 [of "rnd64 d"] by (simp add: round64_def Let_def)
  have "\<bar>d\<bar> < pow2 0" using assms by (simp add: pow2_0)
  then have "ulp64 d \<le> pow2 (0 - 53)" by (rule ulp64_le) simp
  moreover have "pow2 (- 53) = 2 * pow2 (- 54)"
    using pow2_add [of 1 "- 54"] by (simp add: pow2_1)
  ultimately have "ulp64 d / 2 \<le> pow2 (- 54)" by simp
  with rnd64_err [of d] show "\<bar>rnd64 d - d\<bar> \<le> pow2 (- 54)" by linarith
qed

lemma prod_round:
  assumes "0 \<le> f" and "f \<le> 1"
  shows "round64 (1000000000 * f) = Fin (rnd64 (1000000000 * f))"
    and "0 \<le> rnd64 (1000000000 * f)"
    and "rnd64 (1000000000 * f) \<le> 1000000000"
    and "rnd64 (1000000000 * f) - 1000000000 * f \<le> pow2 (- 24)"
    and "1000000000 * f < of_int \<lfloor>rnd64 (1000000000 * f)\<rfloor> + 1"
proof -
  define x where "x = 1000000000 * f"
  have x: "0 \<le> x" "x \<le> 1000000000" using assms by (simp_all add: x_def)
  then have b: "\<bar>x\<bar> < 2 ^ 53" by simp
  have "of_int 0 \<le> rnd64 x" using b x(1) by (intro rnd64_int_ge) simp_all
  then have l: "0 \<le> rnd64 x" by simp
  have "rnd64 x \<le> of_int 1000000000" using b x(2) by (intro rnd64_int_le) simp_all
  then have u: "rnd64 x \<le> 1000000000" by simp
  from l u have "\<bar>rnd64 x\<bar> \<le> 1000000000" by simp
  then have r: "round64 x = Fin (rnd64 x)"
    using small_le_max64 [of "rnd64 x"] by (simp add: round64_def Let_def)
  have "\<bar>x\<bar> < pow2 30" using x by (simp add: pow2_30)
  then have "ulp64 x \<le> pow2 (30 - 53)" by (rule ulp64_le) simp
  moreover have "pow2 (- 23) = 2 * pow2 (- 24)"
    using pow2_add [of 1 "- 24"] by (simp add: pow2_1)
  ultimately have "ulp64 x / 2 \<le> pow2 (- 24)" by simp
  with rnd64_err [of x] have e: "rnd64 x - x \<le> pow2 (- 24)" by linarith
  have s: "x < of_int \<lfloor>rnd64 x\<rfloor> + 1"
  proof (rule ccontr)
    assume "\<not> x < of_int \<lfloor>rnd64 x\<rfloor> + 1"
    then have "of_int (\<lfloor>rnd64 x\<rfloor> + 1) \<le> x" by simp
    then have "of_int (\<lfloor>rnd64 x\<rfloor> + 1) \<le> rnd64 x" using b by (intro rnd64_int_ge)
    then show False by linarith
  qed
  show "round64 (1000000000 * f) = Fin (rnd64 (1000000000 * f))"
    and "0 \<le> rnd64 (1000000000 * f)"
    and "rnd64 (1000000000 * f) \<le> 1000000000"
    and "rnd64 (1000000000 * f) - 1000000000 * f \<le> pow2 (- 24)"
    and "1000000000 * f < of_int \<lfloor>rnd64 (1000000000 * f)\<rfloor> + 1"
    using r l u e s by (simp_all add: x_def)
qed

lemma new_LIGOTimeGPS_in_range:
  assumes "- (2 ^ 31) \<le> s" and "s \<le> 2 ^ 31 - 2" and "0 \<le> ns" and "ns \<le> 1000000000"
  shows "new_LIGOTimeGPS s ns
           = Inr \<lparr>gpsSeconds = c_div (1000000000 * s + ns) 1000000000,
                  gpsNanoSeconds = 1000000000 * s + ns
                     - 1000000000 * c_div (1000000000 * s + ns) 1000000000\<rparr>"
proof -
  define total where "total = 1000000000 * s + ns"
  have t: "- 2147483648000000000 \<le> total" "total \<le> 2147483647000000000"
    using assms by (simp_all add: total_def)
  have "in_INT4 (c_div total 1000000000)"
  proof (cases "0 \<le> total")
    case True
    then have "c_div total 1000000000 = total div 1000000000"
      by (cases "total = 0") (simp_all add: c_div_def)
    with True t show ?thesis by (simp add: in_INT4_def) linarith
  next
    case False
    then have "c_div total 1000000000 = - ((- total) div 1000000000)"
      by (simp add: c_div_def)
    with False t show ?thesis by (simp add: in_INT4_def) linarith
  qed
  moreover have "in_INT4 s" using assms by (simp add: in_INT4_def)
  moreover have "in_INT8 ns" using assms by (simp add: in_INT8_def)
  ultimately show ?thesis
    by (simp add: new_LIGOTimeGPS_def Let_def total_def)
qed

lemma gps_entries_all:
  assumes "\<And>ind. ind \<in> set inds \<Longrightarrow>
             py_int (S ! ind) = Inr (sf ind) \<and> py_int (N ! ind) = Inr (nf ind)
             \<and> new_LIGOTimeGPS (sf ind) (nf ind) = Inr (gf ind)"
  shows "gps_entries S N inds = Inr (map gf inds)"
  using assms by (induction inds) simp_all

lemma frac_exact:
  assumes "\<bar>m\<bar> < 2 ^ 53" and "- 1074 \<le> e" and "0 \<le> float64 m e"
  shows "rnd64 (float64 m e - of_int \<lfloor>float64 m e\<rfloor>) = float64 m e - of_int \<lfloor>float64 m e\<rfloor>"
proof -
  have m: "0 \<le> m"
    using assms(3) pow2_pos [of e] by (simp add: float64_def zero_le_mult_iff)
  show ?thesis
  proof (cases "0 \<le> e")
    case True
    then have i: "float64 m e = of_int (m * 2 ^ nat e)"
      by (simp add: float64_def pow2_def)
    have z: "float64 m e - of_int \<lfloor>float64 m e\<rfloor> = 0"
      unfolding i by simp
    have "rnd64 (float64 0 0) = float64 0 0" by (rule rnd64_float64) simp_all
    then have "rnd64 0 = 0" by (simp add: float64_def)
    then show ?thesis by (simp only: z)
  next
    case False
    define k where "k = nat (- e)"
    have p: "pow2 e = 1 / of_int (2 ^ k)" using False by (simp add: pow2_def k_def)
    then have f: "float64 m e = of_int m / of_int (2 ^ k)" by (simp add: float64_def)
    have "\<lfloor>float64 m e\<rfloor> = m div 2 ^ k"
      unfolding f by (rule floor_divide_of_int_eq)
    moreover have "of_int m = (of_int (m div 2 ^ k) :: real) * of_int (2 ^ k)
                      + of_int (m mod 2 ^ k)"
      by (metis of_int_add of_int_mult div_mult_mod_eq)
    ultimately have "float64 m e - of_int \<lfloor>float64 m e\<rfloor>
        = of_int (m mod 2 ^ k) / of_int (2 ^ k)"
      unfolding f by (simp add: field_simps)
    then have d: "float64 m e - of_int \<lfloor>float64 m e\<rfloor> = float64 (m mod 2 ^ k) e"
      by (simp add: float64_def p)
    have "0 \<le> m mod 2 ^ k" by simp
    moreover have "m mod 2 ^ k \<le> m" using m by (rule zmod_le_nonneg_dividend)
    ultimately have "\<bar>m mod 2 ^ k\<bar> < 2 ^ 53" using assms(1) m by simp
    then have "rnd64 (float64 (m mod 2 ^ k) e) = float64 (m mod 2 ^ k) e"
      using assms(2) by (rule rnd64_float64)
    then show ?thesis by (simp only: d)
  qed
qed


lemma element_conversion:
  assumes "- (2 ^ 31) \<le> t" and "t < 2 ^ 31 - 1"
  defines "f \<equiv> rnd64 (t - of_int \<lfloor>t\<rfloor>)"
  defines "ns \<equiv> \<lfloor>rnd64 (1000000000 * f)\<rfloor>"
  shows "py_int (np_floor (Fin t)) = Inr \<lfloor>t\<rfloor>"
    and "py_int (np_floor (f64_mul (Fin 1000000000) (round64 (t - of_int \<lfloor>t\<rfloor>)))) = Inr ns"
    and "new_LIGOTimeGPS \<lfloor>t\<rfloor> ns
           = Inr \<lparr>gpsSeconds = c_div (1000000000 * \<lfloor>t\<rfloor> + ns) 1000000000,
                  gpsNanoSeconds = 1000000000 * \<lfloor>t\<rfloor> + ns
                     - 1000000000 * c_div (1000000000 * \<lfloor>t\<rfloor> + ns) 1000000000\<rparr>"
    and "of_int ns - pow2 (- 24) \<le> 1000000000 * f"
    and "1000000000 * f < of_int ns + 1"
    and "\<bar>f - (t - of_int \<lfloor>t\<rfloor>)\<bar> \<le> pow2 (- 54)"
proof -
  define d where "d = t - of_int \<lfloor>t\<rfloor>"
  have d: "0 \<le> d" "d < 1" unfolding d_def by linarith+
  note fr = frac_round [OF d]
  have f: "0 \<le> f" "f \<le> 1" using fr(2,3) by (simp_all add: f_def d_def)
  note pr = prod_round [OF f]
  show "py_int (np_floor (Fin t)) = Inr \<lfloor>t\<rfloor>"
    by (simp add: np_floor_def py_int_of_int)
  have "f64_mul (Fin 1000000000) (round64 (t - of_int \<lfloor>t\<rfloor>))
          = Fin (rnd64 (1000000000 * f))"
    using fr(1) pr(1) by (simp add: f_def d_def f64_mul_Fin)
  then show "py_int (np_floor (f64_mul (Fin 1000000000) (round64 (t - of_int \<lfloor>t\<rfloor>))))
          = Inr ns"
    by (simp add: np_floor_def py_int_of_int ns_def)
  have s1: "- (2 ^ 31) \<le> \<lfloor>t\<rfloor>" using assms(1) by (simp add: le_floor_iff)
  have "\<lfloor>t\<rfloor> < 2 ^ 31 - 1" using assms(2) by (simp add: floor_less_iff)
  then have s2: "\<lfloor>t\<rfloor> \<le> 2 ^ 31 - 2" by simp
  have n1: "0 \<le> ns" using pr(2) by (simp add: ns_def)
  have n2: "ns \<le> 1000000000" using pr(3) by (simp add: ns_def floor_le_iff)
  show "new_LIGOTimeGPS \<lfloor>t\<rfloor> ns
           = Inr \<lparr>gpsSeconds = c_div (1000000000 * \<lfloor>t\<rfloor> + ns) 1000000000,
                  gpsNanoSeconds = 1000000000 * \<lfloor>t\<rfloor> + ns
                     - 1000000000 * c_div (1000000000 * \<lfloor>t\<rfloor> + ns) 1000000000\<rparr>"
    using s1 s2 n1 n2 by (rule new_LIGOTimeGPS_in_range)
  have "of_int ns \<le> rnd64 (1000000000 * f)" by (simp add: ns_def)
  with pr(4) show "of_int ns - pow2 (- 24) \<le> 1000000000 * f" by linarith
  show "1000000000 * f < of_int ns + 1" using pr(5) by (simp add: ns_def)
  show "\<bar>f - (t - of_int \<lfloor>t\<rfloor>)\<bar> \<le> pow2 (- 54)"
    using fr(4) by (simp add: f_def d_def)
qed

text \<open>
  C9, as stated, fails in the arithmetic of numpy. For the float \<^verbatim>\<open>0.3\<close> (a little below
  three tenths) the product \<^verbatim>\<open>1e9 * (t - seconds)\<close> is rounded to \<open>300000000\<close>, so the
  stored instant, \<open>0\<close> seconds and \<open>300000000\<close> nanoseconds, is later than \<open>t\<close>:
  \<open>0 \<le> t - (seconds + nanoseconds / 10\<^sup>9)\<close> is false.
\<close>

theorem timestamp_later_counterexample:
  "numpy_array_to_LIGOTimeGPSVector example_three_tenths None
     = Inr \<lparr>tsv_data = [\<lparr>gpsSeconds = 0, gpsNanoSeconds = 300000000\<rparr>], tsv_deltaT = 0\<rparr>
   \<and> \<not> 0 \<le> three_tenths - (of_int 0 + of_int 300000000 / 1000000000)"
proof -
  have v: "three_tenths = 5404319552844595 / 18014398509481984"
    by (simp add: three_tenths_def float64_def pow2_def)
  have fl: "\<lfloor>three_tenths\<rfloor> = 0" by (simp add: v)
  have "rnd64 (float64 5404319552844595 (- 54)) = float64 5404319552844595 (- 54)"
    by (rule rnd64_float64) simp_all
  then have r1: "rnd64 three_tenths = three_tenths" by (simp add: three_tenths_def)
  have "\<bar>three_tenths\<bar> \<le> 1000000000" by (simp add: v)
  then have f: "round64 three_tenths = Fin three_tenths"
    using small_le_max64 [of three_tenths] r1 by (simp add: round64_def Let_def)
  define x where "x = 1000000000 * three_tenths"
  have xv: "x = 5404319552844595000000000 / 18014398509481984"
    by (simp add: x_def v)
  have "pow2 28 \<le> \<bar>x\<bar>" by (simp add: xv pow2_def)
  then have e1: "28 \<le> expo64 x" by (rule expo64_lower)
  have "\<bar>x\<bar> < pow2 29" by (simp add: xv pow2_def)
  then have "expo64 x \<le> 29 - 1" by (rule expo64_le) simp
  with e1 have "expo64 x = 28" by simp
  then have u: "ulp64 x = 1 / 16777216" by (simp add: ulp64_def pow2_def)
  have "rne (x / ulp64 x) = 5033164800000000"
    unfolding u by (simp add: xv rne_def Let_def)
  then have r2: "rnd64 x = 300000000" by (simp add: rnd64_def u)
  then have p: "round64 x = Fin 300000000"
    using small_le_max64 [of "300000000"] by (simp add: round64_def Let_def)
  have py: "py_int (Fin 0) = Inr 0" "py_int (Fin 300000000) = Inr 300000000"
    by (simp_all add: py_int_def)
  have g: "new_LIGOTimeGPS 0 300000000
             = Inr \<lparr>gpsSeconds = 0, gpsNanoSeconds = 300000000\<rparr>"
    by (simp add: new_LIGOTimeGPS_def in_INT4_def in_INT8_def c_div_def)
  have "numpy_array_to_LIGOTimeGPSVector example_three_tenths None
     = Inr \<lparr>tsv_data = [\<lparr>gpsSeconds = 0, gpsNanoSeconds = 300000000\<rparr>], tsv_deltaT = 0\<rparr>"
    using fl f p py g
    by (simp add: numpy_array_to_LIGOTimeGPSVector_def example_three_tenths_def ndim_def
        np_floor_def f64_mul_Fin py_or_zero_def x_def)
  moreover have "\<not> 0 \<le> three_tenths - (of_int 0 + of_int 300000000 / 1000000000)"
    by (simp add: v)
  ultimately show ?thesis by simp
qed

lemma timestamp_example_late:
  "numpy_array_to_LIGOTimeGPSVector example_late Tsft = Inl OverflowError"
proof -
  have "py_int (Fin 0) = Inr 0" "py_int (Fin 2147483648) = Inr 2147483648"
    by (simp_all add: py_int_def)
  moreover have "new_LIGOTimeGPS 2147483648 0 = Inl OverflowError"
    by (simp add: new_LIGOTimeGPS_def in_INT4_def)
  ultimately show ?thesis
    by (simp add: numpy_array_to_LIGOTimeGPSVector_def example_late_def ndim_def
        np_floor_def f64_mul_Fin round64_small)
qed

text \<open>
  C9, amended. In the arithmetic of numpy, for a one-dimensional array of times from
  \<open>-2\<^sup>3\<^sup>1\<close> to below \<open>2\<^sup>3\<^sup>1 - 1\<close>, the conversion returns a vector with one entry for each
  time \<open>t\<close>, and the stored instant \<open>seconds + nanoseconds / 10\<^sup>9\<close> is within a
  nanosecond of \<open>t\<close> up to rounding: \<open>t\<close> less the stored instant is at least
  \<open>-(2\<^sup>-\<^sup>2\<^sup>4 / 10\<^sup>9 + 2\<^sup>-\<^sup>5\<^sup>4)\<close> and below \<open>10\<^sup>-\<^sup>9 + 2\<^sup>-\<^sup>5\<^sup>4\<close>; for a float \<open>t \<ge> 0\<close> it is at least
  \<open>-2\<^sup>-\<^sup>2\<^sup>4 / 10\<^sup>9\<close> (about \<open>-6 * 10\<^sup>-\<^sup>1\<^sup>7\<close>) and below \<open>10\<^sup>-\<^sup>9\<close>. (From \<open>2\<^sup>3\<^sup>1\<close> on the
  conversion raises \<^verbatim>\<open>OverflowError\<close>: \<open>timestamp_example_late\<close>.)
\<close>

theorem timestamp_within_nanosecond:
  assumes "nd_shape a = [length (nd_values a)]"
    and "\<forall>t \<in> set (nd_values a). - (2 ^ 31) \<le> t \<and> t < 2 ^ 31 - 1"
    and "i < length (nd_values a)"
  shows "\<exists>v. numpy_array_to_LIGOTimeGPSVector a Tsft = Inr v
          \<and> length (tsv_data v) = length (nd_values a)
          \<and> - (pow2 (- 24) / 1000000000 + pow2 (- 54))
              \<le> nd_values a ! i
                  - (of_int (gpsSeconds (tsv_data v ! i))
                     + of_int (gpsNanoSeconds (tsv_data v ! i)) / 1000000000)
          \<and> nd_values a ! i
                  - (of_int (gpsSeconds (tsv_data v ! i))
                     + of_int (gpsNanoSeconds (tsv_data v ! i)) / 1000000000)
              < 1 / 1000000000 + pow2 (- 54)
          \<and> (0 \<le> nd_values a ! i \<and> nd_values a ! i = float64 m e
                \<and> \<bar>m\<bar> < 2 ^ 53 \<and> - 1074 \<le> e \<longrightarrow>
               - (pow2 (- 24) / 1000000000)
                 \<le> nd_values a ! i
                     - (of_int (gpsSeconds (tsv_data v ! i))
                        + of_int (gpsNanoSeconds (tsv_data v ! i)) / 1000000000)
               \<and> nd_values a ! i
                     - (of_int (gpsSeconds (tsv_data v ! i))
                        + of_int (gpsNanoSeconds (tsv_data v ! i)) / 1000000000)
                 < 1 / 1000000000)"
proof -
  define vals where "vals = nd_values a"
  define n where "n = length vals"
  define sf where "sf ind = \<lfloor>vals ! ind\<rfloor>" for ind
  define ff where "ff ind = rnd64 (vals ! ind - of_int \<lfloor>vals ! ind\<rfloor>)" for ind
  define nf where "nf ind = \<lfloor>rnd64 (1000000000 * ff ind)\<rfloor>" for ind
  define gf where "gf ind =
      \<lparr>gpsSeconds = c_div (1000000000 * sf ind + nf ind) 1000000000,
       gpsNanoSeconds = 1000000000 * sf ind + nf ind
          - 1000000000 * c_div (1000000000 * sf ind + nf ind) 1000000000\<rparr>" for ind
  define S where "S = map (\<lambda>t. np_floor (Fin t)) vals"
  define N where "N = map (\<lambda>t. np_floor
                          (f64_mul (Fin 1000000000) (round64 (t - of_int \<lfloor>t\<rfloor>)))) vals"
  have rg: "- (2 ^ 31) \<le> vals ! ind \<and> vals ! ind < 2 ^ 31 - 1" if "ind < n" for ind
    using assms(2) that by (simp add: vals_def n_def)
  have el: "py_int (S ! ind) = Inr (sf ind) \<and> py_int (N ! ind) = Inr (nf ind)
             \<and> new_LIGOTimeGPS (sf ind) (nf ind) = Inr (gf ind)"
    if "ind \<in> set [0..<n]" for ind
  proof -
    from that have l: "ind < n" by simp
    from rg [OF l] have r: "- (2 ^ 31) \<le> vals ! ind" "vals ! ind < 2 ^ 31 - 1" by simp_all
    show ?thesis
      using element_conversion(1,2,3) [OF r] l
      by (simp add: S_def N_def sf_def nf_def ff_def gf_def n_def)
  qed
  have entries: "gps_entries S N [0..<n] = Inr (map gf [0..<n])"
    using el by (rule gps_entries_all)
  define v where "v = \<lparr>tsv_data = map gf [0..<n],
                       tsv_deltaT = (if n = 0 then 0 else py_or_zero Tsft)\<rparr>"
  have res: "numpy_array_to_LIGOTimeGPSVector a Tsft = Inr v"
    using assms(1) entries
    by (simp add: numpy_array_to_LIGOTimeGPSVector_def ndim_def Let_def v_def
        S_def N_def vals_def n_def)
  have len: "length (tsv_data v) = length (nd_values a)"
    by (simp add: v_def n_def vals_def)
  have i: "i < n" using assms(3) by (simp add: n_def vals_def)
  define t where "t = vals ! i"
  define r where "r = of_int (gpsSeconds (tsv_data v ! i))
                        + of_int (gpsNanoSeconds (tsv_data v ! i)) / (1000000000 :: real)"
  have "tsv_data v ! i = gf i" using i by (simp add: v_def)
  then have rr: "r = of_int (sf i) + of_int (nf i) / 1000000000"
    by (simp add: r_def gf_def field_simps)
  from rg [OF i] have tr: "- (2 ^ 31) \<le> t" "t < 2 ^ 31 - 1" by (simp_all add: t_def)
  have b1: "of_int (nf i) - pow2 (- 24) \<le> 1000000000 * ff i"
    and b2: "1000000000 * ff i < of_int (nf i) + 1"
    and b3: "\<bar>ff i - (t - of_int (sf i))\<bar> \<le> pow2 (- 54)"
    using element_conversion(4,5,6) [OF tr] by (simp_all add: nf_def ff_def sf_def t_def)
  from b3 have b4: "ff i - (t - of_int (sf i)) \<le> pow2 (- 54)"
    and b5: "- pow2 (- 54) \<le> ff i - (t - of_int (sf i))"
    by linarith+
  have lo: "- (pow2 (- 24) / 1000000000 + pow2 (- 54)) \<le> t - r"
    using b1 b4 unfolding rr by linarith
  have hi: "t - r < 1 / 1000000000 + pow2 (- 54)"
    using b2 b5 unfolding rr by linarith
  have ex: "- (pow2 (- 24) / 1000000000) \<le> t - r \<and> t - r < 1 / 1000000000"
    if "0 \<le> t \<and> t = float64 m e \<and> \<bar>m\<bar> < 2 ^ 53 \<and> - 1074 \<le> e"
  proof -
    from that have "rnd64 (float64 m e - of_int \<lfloor>float64 m e\<rfloor>)
        = float64 m e - of_int \<lfloor>float64 m e\<rfloor>"
      by (intro frac_exact) simp_all
    with that have fe: "ff i = t - of_int (sf i)"
      by (simp add: ff_def sf_def t_def)
    have c1: "of_int (nf i) - pow2 (- 24) \<le> 1000000000 * t - 1000000000 * of_int (sf i)"
      using b1 unfolding fe by (simp add: algebra_simps)
    have c2: "1000000000 * t - 1000000000 * of_int (sf i) < of_int (nf i) + 1"
      using b2 unfolding fe by (simp add: algebra_simps)
    have "- (pow2 (- 24) / 1000000000) \<le> t - r" using c1 unfolding rr by linarith
    moreover have "t - r < 1 / 1000000000" using c2 unfolding rr by linarith
    ultimately show ?thesis by simp
  qed
  show ?thesis
    using res len lo hi ex unfolding r_def t_def vals_def by blast
qed

theorem timestamp_within_nanosecond_witness:
  "\<exists>v. numpy_array_to_LIGOTimeGPSVector example_array (Some 1800) = Inr v
      \<and> length (tsv_data v) = 2
      \<and> - (pow2 (- 24) / 1000000000)
          \<le> (5 / 4 :: real) - (of_int (gpsSeconds (tsv_data v ! 0))
                       + of_int (gpsNanoSeconds (tsv_data v ! 0)) / 1000000000)
      \<and> (5 / 4 :: real) - (of_int (gpsSeconds (tsv_data v ! 0))
                       + of_int (gpsNanoSeconds (tsv_data v ! 0)) / 1000000000)
          < 1 / 1000000000"
proof -
  have sh: "nd_shape example_array = [length (nd_values example_array)]"
    by (simp add: example_array_def)
  have rg: "\<forall>t \<in> set (nd_values example_array). - (2 ^ 31) \<le> t \<and> t < 2 ^ 31 - 1"
    by (simp add: example_array_def)
  have i: "0 < length (nd_values example_array)"
    by (simp add: example_array_def)
  have f: "0 \<le> nd_values example_array ! 0
             \<and> nd_values example_array ! 0 = float64 5 (- 2)
             \<and> \<bar>5 :: int\<bar> < 2 ^ 53 \<and> (- 1074 :: int) \<le> - 2"
    by (simp add: example_array_def float64_def pow2_def)
  from timestamp_within_nanosecond [OF sh rg i, of "Some 1800" 5 "- 2"] f
  show ?thesis by (auto simp: example_array_def)
qed

subsection \<open>Covering band\<close>

text \<open>
  C4, as stated, fails: the test is for NaN, not for infinity. A band whose upper end is
  \<open>+\<infinity>\<close> passes every test and is returned.
\<close>

theorem get_covering_band_infinite_counterexample:
  "get_covering_band band_unbounded 0 0 86400 100 0 0 0 0 0 0 0 0 = Inr (Fin 1, PInf)
   \<and> \<not> isfinite PInf"
  by (simp add: get_covering_band_def band_unbounded_def Let_def)

text \<open>
  C4, amended. A returned pair has no NaN, both values strictly positive, and
  \<open>minCoverFreq \<le> maxCoverFreq\<close>. (Infinity is not excluded.)
\<close>

theorem get_covering_band_checked:
  assumes "get_covering_band C tref tstart tend F0 F1 F2 F0band F1band F2band
             maxOrbitAsini minOrbitPeriod maxOrbitEcc = Inr (mn, mx)"
  shows "\<not> isnan mn \<and> \<not> isnan mx \<and> fl_lt (Fin 0) mn \<and> fl_lt (Fin 0) mx \<and> fl_le mn mx"
proof -
  from assms have t: "\<not> isnan mn" "\<not> isnan mx" "\<not> fl_le mn (Fin 0)" "\<not> fl_le mx (Fin 0)"
      "\<not> fl_lt mx mn"
    by (simp_all add: get_covering_band_def Let_def split: sum.splits prod.splits if_splits)
  then show ?thesis
    by (cases mn; cases mx; auto)
qed

theorem get_covering_band_checked_witness:
  "get_covering_band band_around_100 0 0 86400 100 0 0 0 0 0 0 0 0 = Inr (Fin 99, Fin 101)
   \<and> \<not> isnan (Fin 99) \<and> \<not> isnan (Fin 101) \<and> fl_lt (Fin 0) (Fin 99) \<and> fl_lt (Fin 0) (Fin 101)
   \<and> fl_le (Fin 99) (Fin 101)"
proof -
  have r: "get_covering_band band_around_100 0 0 86400 100 0 0 0 0 0 0 0 0
             = Inr (Fin 99, Fin 101)"
    by (simp add: get_covering_band_def band_around_100_def Let_def)
  show ?thesis using r get_covering_band_checked [OF r] by simp
qed

subsection \<open>The command line of \<^verbatim>\<open>generate_loudest_file\<close>\<close>

lemma truthy_falsy_to_None: "truthy (falsy_to_None v) = truthy v"
  by (simp add: falsy_to_None_def)

lemma keys_dict_update: "fst ` set (dict_update d other) = fst ` set d \<union> fst ` set other"
  unfolding dict_update_def
  by (induction other arbitrary: d) (auto simp: dom_update split: prod.splits)

lemma CFSv2_params_falsy:
  "CFSv2_params max_params tref outdir label sftfilepattern
       (falsy_to_None a) (falsy_to_None b) (falsy_to_None c) (falsy_to_None d) (falsy_to_None e)
   = CFSv2_params max_params tref outdir label sftfilepattern a b c d e"
  by (simp add: CFSv2_params_def falsy_to_None_def)

lemma CFSv2_params_keys:
  "fst ` set (CFSv2_params max_params tref outdir label sftfilepattern a b c d e)
    = {''DataFiles'', ''outputLoudest'', ''refTime''} \<union> fst ` set max_params
      \<union> (if truthy a then {''minStartTime''} else {})
      \<union> (if truthy b then {''maxStartTime''} else {})
      \<union> (if truthy c then {''transient-WindowType''} else {})
      \<union> (if truthy d then {''ephemEarth''} else {})
      \<union> (if truthy e then {''ephemSun''} else {})"
  by (auto simp: CFSv2_params_def keys_dict_update Let_def)

text \<open>
  C10. An optional argument whose value is falsy adds no entry to \<^verbatim>\<open>CFSv2_params\<close>, from
  which the command line takes one \<^verbatim>\<open>--key=val\<close> for each entry: unless \<^verbatim>\<open>max_params\<close>
  has the key itself, the key is absent. The command line, and the whole call, are the
  same as with \<^verbatim>\<open>None\<close> in place of every falsy optional argument; so a start or end
  time of \<open>0\<close> is passed like \<^verbatim>\<open>None\<close>.
\<close>

theorem falsy_optional_arguments_omitted:
  assumes "(k, v) \<in> set [(''minStartTime'', minStartTime), (''maxStartTime'', maxStartTime),
                          (''transient-WindowType'', transientWindowType),
                          (''ephemEarth'', earth_ephem), (''ephemSun'', sun_ephem)]"
    and "\<not> truthy v"
    and "k \<notin> fst ` set max_params"
  shows "k \<notin> fst ` set (CFSv2_params max_params tref outdir label sftfilepattern
                           minStartTime maxStartTime transientWindowType earth_ephem sun_ephem)
       \<and> loudest_cmd which float_str max_params tref outdir label sftfilepattern
           minStartTime maxStartTime transientWindowType earth_ephem sun_ephem
         = loudest_cmd which float_str max_params tref outdir label sftfilepattern
             (falsy_to_None minStartTime) (falsy_to_None maxStartTime)
             (falsy_to_None transientWindowType) (falsy_to_None earth_ephem)
             (falsy_to_None sun_ephem)
       \<and> generate_loudest_file which float_str run_commandline max_params tref outdir label
           sftfilepattern minStartTime maxStartTime transientWindowType earth_ephem sun_ephem
         = generate_loudest_file which float_str run_commandline max_params tref outdir label
             sftfilepattern (falsy_to_None minStartTime) (falsy_to_None maxStartTime)
             (falsy_to_None transientWindowType) (falsy_to_None earth_ephem)
             (falsy_to_None sun_ephem)"
proof (intro conjI)
  show "k \<notin> fst ` set (CFSv2_params max_params tref outdir label sftfilepattern
                           minStartTime maxStartTime transientWindowType earth_ephem sun_ephem)"
    using assms unfolding CFSv2_params_keys by auto
  show "loudest_cmd which float_str max_params tref outdir label sftfilepattern
           minStartTime maxStartTime transientWindowType earth_ephem sun_ephem
         = loudest_cmd which float_str max_params tref outdir label sftfilepattern
             (falsy_to_None minStartTime) (falsy_to_None maxStartTime)
             (falsy_to_None transientWindowType) (falsy_to_None earth_ephem)
             (falsy_to_None sun_ephem)"
    by (simp add: loudest_cmd_def CFSv2_params_falsy cong: sum.case_cong)
  then show "generate_loudest_file which float_str run_commandline max_params tref outdir
           label sftfilepattern minStartTime maxStartTime transientWindowType earth_ephem
           sun_ephem
         = generate_loudest_file which float_str run_commandline max_params tref outdir label
             sftfilepattern (falsy_to_None minStartTime) (falsy_to_None maxStartTime)
             (falsy_to_None transientWindowType) (falsy_to_None earth_ephem)
             (falsy_to_None sun_ephem)"
    by (simp add: generate_loudest_file_def)
qed


theorem falsy_optional_arguments_omitted_witness:
  "''minStartTime'' \<notin> fst ` set (CFSv2_params [(''Freq'', PFloat 100)] (PInt 5) ''out'' ''lab''
                                       ''*.sft'' (PInt 0) (PInt 9) PNone PNone PNone)
   \<and> loudest_cmd example_which example_float_str [(''Freq'', PFloat 100)] (PInt 5) ''out''
       ''lab'' ''*.sft'' (PInt 0) (PInt 9) PNone PNone PNone
     = loudest_cmd example_which example_float_str [(''Freq'', PFloat 100)] (PInt 5) ''out''
         ''lab'' ''*.sft'' PNone (PInt 9) PNone PNone PNone"
proof -
  have m: "(''minStartTime'', PInt 0)
             \<in> set [(''minStartTime'', PInt 0), (''maxStartTime'', PInt 9),
                     (''transient-WindowType'', PNone), (''ephemEarth'', PNone),
                     (''ephemSun'', PNone)]"
    by simp
  have f: "\<not> truthy (PInt 0)" by simp
  have k: "''minStartTime'' \<notin> fst ` set [(''Freq'', PFloat 100)]" by simp
  show ?thesis
    using falsy_optional_arguments_omitted [OF m f k, of "PInt 5" "''out''" "''lab''" "''*.sft''"
        example_which example_float_str run_commandline]
    by (simp add: falsy_to_None_def)
qed

lemma loudest_cmd_example:
  "loudest_cmd example_which example_float_str [(''Freq'', PFloat 100)] (PInt 5) ''out''
       ''lab'' ''*.sft'' (PInt 0) (PInt 9) PNone PNone PNone
   = Inr ''lalpulsar_ComputeFstatistic_v2 --DataFiles=\"*.sft\" --outputLoudest=out/lab.loudest --refTime=5 --Freq=100.0 --maxStartTime=9''"
  by (simp add: loudest_cmd_def CFSv2_params_def dict_update_def get_lal_exec_def py_or_def
       basename_def path_join_def has_glitch_parameters_def example_which_def
       example_float_str_def str_int_def str_nat.simps)

end
